theory Spec2Isabelle
  imports Main
begin

section \<open>JavaScript values and objects\<close>

text \<open>
  A model of the collectible detection of the wallet: \<^verbatim>\<open>AssetsDetectionController\<close>
  (the polling timer, the user-supplied entries, the Covalent and OpenSea adapters and
  the merge of the three sources) and \<^verbatim>\<open>AssetController\<close> (normalization and the
  store). Awaited calls are functions of their arguments; a rejected promise or a thrown
  error is a value \<open>Inl\<close>.

  The controllers work on loosely typed JSON data. A field value is one of the
  JavaScript values below; \<open>truthy\<close> is the coercion that \<^verbatim>\<open>if (x)\<close>, \<^verbatim>\<open>!x\<close>,
  \<^verbatim>\<open>a && b\<close> and \<^verbatim>\<open>a || b\<close> apply. Numbers are the integers of the safe range.
\<close>

datatype jsval = Undefined | Null | Str string | Num int

fun truthy :: "jsval \<Rightarrow> bool" where
  "truthy Undefined = False"
| "truthy Null = False"
| "truthy (Str s) = (s \<noteq> [])"
| "truthy (Num n) = (n \<noteq> 0)"

text \<open>\<^verbatim>\<open>a || b\<close> on values.\<close>

definition js_or :: "jsval \<Rightarrow> jsval \<Rightarrow> jsval" where
  "js_or a b = (if truthy a then a else b)"

text \<open>
  A plain object used as a dictionary with string keys: the pairs are kept in insertion
  order, which is the order of \<^verbatim>\<open>Object.keys\<close> for keys that are not array indices
  (every key below is an address or contains an underscore). Assigning to a key that
  is present replaces the value in place. Keys are taken to differ from the property
  names every object inherits.
\<close>

type_synonym 'a jsobj = "(string \<times> 'a) list"

definition obj_get :: "'a jsobj \<Rightarrow> string \<Rightarrow> 'a option" where
  "obj_get m k = map_of m k"

fun obj_set :: "'a jsobj \<Rightarrow> string \<Rightarrow> 'a \<Rightarrow> 'a jsobj" where
  "obj_set [] k v = [(k, v)]"
| "obj_set ((k', v') # m) k v =
     (if k' = k then (k, v) # m else (k', v') # obj_set m k v)"

definition obj_keys :: "'a jsobj \<Rightarrow> string list" where
  "obj_keys m = map fst m"

section \<open>AssetController: the stored entities\<close>

text \<open>
  A normalized collectible, as \<^verbatim>\<open>_normalizeCollectibleDetails\<close> builds it (fields
  \<^verbatim>\<open>address, tokenId, name, image, description, standard, tokenBalance,
  collectibleIndex\<close>), and a normalized contract, as \<^verbatim>\<open>_normalizeContractDetails\<close>
  builds it (fields \<^verbatim>\<open>standard, address, description, logo, name, symbol\<close>). The
  field names carry a prefix because the two objects share names.
\<close>

record collectible =
  col_address :: string
  col_tokenId :: string
  col_name :: jsval
  col_image :: jsval
  col_description :: jsval
  col_standard :: jsval
  col_tokenBalance :: jsval
  collectibleIndex :: string

record contract =
  con_standard :: jsval
  con_address :: string
  con_description :: jsval
  con_logo :: jsval
  con_name :: jsval
  con_symbol :: jsval

subsection \<open>Merging a new array into the stored one\<close>

text \<open>
  \<^verbatim>\<open>getObjectFromArrayBasedonKey(oldArray, key)\<close>: a left-to-right \<^verbatim>\<open>reduce\<close> that
  assigns \<^verbatim>\<open>acc[x[key]] = x\<close>. The property name \<^verbatim>\<open>key\<close> is given as the function
  that reads it.
\<close>

definition getObjectFromArrayBasedonKey :: "'a list \<Rightarrow> ('a \<Rightarrow> string) \<Rightarrow> 'a jsobj" where
  "getObjectFromArrayBasedonKey oldArray key =
     fold (\<lambda>x acc. obj_set acc (key x) x) oldArray []"

text \<open>
  The loop \<^verbatim>\<open>Object.keys(oldMap).forEach((x) => { if (!newMap[x]) finalArr.push(oldMap[x]) })\<close>.
  It runs over the entries of \<open>oldMap\<close>, so that \<open>oldMap[x]\<close> is the entry's value; a
  value of \<open>newMap\<close> is an object, hence truthy exactly when the key is present.
\<close>

definition push_missing :: "'a jsobj \<Rightarrow> 'a jsobj \<Rightarrow> 'a list \<Rightarrow> 'a list" where
  "push_missing oldMap newMap finalArr =
     fold (\<lambda>(x, v) arr. if obj_get newMap x = None then arr @ [v] else arr) oldMap finalArr"

text \<open>
  \<^verbatim>\<open>mergeContractArrays\<close> and \<^verbatim>\<open>mergeCollectibleArrays\<close>. In the source
  \<^verbatim>\<open>const finalArr = newArray\<close> makes \<open>finalArr\<close> the array object \<open>newArray\<close>
  itself, so the pushes change the caller's array too. The model returns both: the
  first component is the returned array, the second is the content of the argument
  \<open>newArray\<close> after the call.
\<close>

definition mergeContractArrays :: "contract list \<Rightarrow> contract list \<Rightarrow> contract list \<times> contract list" where
  "mergeContractArrays oldArray newArray =
     (let oldMap = getObjectFromArrayBasedonKey oldArray con_address;
          newMap = getObjectFromArrayBasedonKey newArray con_address;
          finalArr = push_missing oldMap newMap newArray
      in (finalArr, finalArr))"

definition mergeCollectibleArrays ::
  "collectible list \<Rightarrow> collectible list \<Rightarrow> collectible list \<times> collectible list" where
  "mergeCollectibleArrays oldArray newArray =
     (let oldMap = getObjectFromArrayBasedonKey oldArray collectibleIndex;
          newMap = getObjectFromArrayBasedonKey newArray collectibleIndex;
          finalArr = push_missing oldMap newMap newArray
      in (finalArr, finalArr))"

text \<open>
  For the statements below: the entries of the old array that a merge appends, namely
  the values of \<open>oldMap\<close> whose key no entry of the new array has.
\<close>

definition carried :: "('a \<Rightarrow> string) \<Rightarrow> 'a list \<Rightarrow> 'a list \<Rightarrow> 'a list" where
  "carried key oldArray newArray =
     map snd (filter (\<lambda>(x, v). x \<notin> key ` set newArray) (getObjectFromArrayBasedonKey oldArray key))"

section \<open>AssetController: collaborators\<close>

text \<open>
  Everything the controller awaits from outside is a parameter: the chain lookups of
  \<^verbatim>\<open>assetContractController\<close>, the two HTTP helpers, \<^verbatim>\<open>isAddress\<close> and
  \<^verbatim>\<open>toChecksumAddress\<close> of web3-utils, the network name, and the constants of
  \<^verbatim>\<open>utils/enums\<close>. A call that throws or rejects returns \<open>Inl\<close>.
\<close>

datatype error = Thrown string

text \<open>The JSON the Covalent API answers with, as far as the code reads it.\<close>

record external_data =
  ext_name :: jsval
  ext_description :: jsval
  ext_image :: jsval

record covalent_nft =
  token_id :: string
  token_balance :: jsval
  external_data :: "external_data option"
  supports_erc :: "string list"

record covalent_item =
  item_type :: jsval
  contract_name :: jsval
  contract_ticker_symbol :: jsval
  contract_address :: string
  logo_url :: jsval
  nft_data :: "covalent_nft list option"

text \<open>
  The JSON behind a token URI: \<open>tj_image = None\<close> when the object has no own property
  \<^verbatim>\<open>image\<close>.
\<close>

record token_json =
  tj_image :: "jsval option"
  tj_image_url :: jsval
  tj_name :: jsval

record env =
  isAddress :: "string \<Rightarrow> bool"
  toChecksumAddress :: "string \<Rightarrow> error + string"
  checkNftStandard :: "string \<Rightarrow> error + jsval"
  getErc1155Balance :: "string \<Rightarrow> string \<Rightarrow> string \<Rightarrow> error + jsval"
  getAssetName :: "string \<Rightarrow> error + jsval"
  getAssetSymbol :: "string \<Rightarrow> error + jsval"
  getCollectibleTokenURI_contract :: "string \<Rightarrow> string \<Rightarrow> jsval \<Rightarrow> error + string"
  http_get :: "string \<Rightarrow> error + token_json"
  getNftMetadata :: "string \<Rightarrow> error + covalent_item list"
  getNetworkNameFromNetworkCode :: string
  NFT_SUPPORTED_NETWORKS :: "string \<Rightarrow> string option"
  CONTRACT_TYPE_ERC721 :: string
  CONTRACT_TYPE_ERC1155 :: string

text \<open>Sequencing of awaited calls: the first rejection is the result.\<close>

definition bind :: "error + 'a \<Rightarrow> ('a \<Rightarrow> error + 'b) \<Rightarrow> error + 'b" where
  "bind m f = (case m of Inl e \<Rightarrow> Inl e | Inr x \<Rightarrow> f x)"

text \<open>\<^verbatim>\<open>Promise.all\<close> over a list of calls: all results in order, or the rejection.\<close>

fun promise_all :: "(error + 'a) list \<Rightarrow> error + 'a list" where
  "promise_all [] = Inr []"
| "promise_all (p # ps) =
     (case p of Inl e \<Rightarrow> Inl e
      | Inr x \<Rightarrow> (case promise_all ps of Inl e \<Rightarrow> Inl e | Inr xs \<Rightarrow> Inr (x # xs)))"

text \<open>\<^verbatim>\<open>SUPPORTED_NFT_STANDARDS.has(standard)\<close>.\<close>

definition SUPPORTED_NFT_STANDARDS_has :: "env \<Rightarrow> jsval \<Rightarrow> bool" where
  "SUPPORTED_NFT_STANDARDS_has en v =
     (v = Str (CONTRACT_TYPE_ERC1155 en) \<or> v = Str (CONTRACT_TYPE_ERC721 en))"

text \<open>\<^verbatim>\<open>_contractAddress\<close>: the checksum form of a valid address, the argument otherwise.\<close>

definition checksum_or_same :: "env \<Rightarrow> string \<Rightarrow> error + string" where
  "checksum_or_same en a = (if isAddress en a then toChecksumAddress en a else Inr a)"

definition getCollectibleApi :: "env \<Rightarrow> string \<Rightarrow> string \<Rightarrow> string" where
  "getCollectibleApi en contractAddress tokenId =
     (case NFT_SUPPORTED_NETWORKS en (getNetworkNameFromNetworkCode en) of
        Some chainId \<Rightarrow>
          (if chainId \<noteq> [] then
             ''https://api.covalenthq.com/v1/'' @ chainId @ ''/tokens/'' @ contractAddress
               @ ''/nft_metadata/'' @ tokenId @ ''/''
           else [])
      | None \<Rightarrow> [])"

section \<open>AssetController: fetching missing details\<close>

text \<open>
  The object \<^verbatim>\<open>{ name, image, description, tokenBalance, standard }\<close> that the
  collectible lookups return.
\<close>

record collectible_information =
  ci_name :: jsval
  ci_image :: jsval
  ci_description :: jsval
  ci_tokenBalance :: jsval
  ci_standard :: jsval

text \<open>
  \<^verbatim>\<open>getCollectibleTokenURI\<close> returns the collaborator's promise from inside its
  \<^verbatim>\<open>try\<close> without awaiting it, so a rejection reaches the caller.
\<close>

definition getCollectibleTokenURI :: "env \<Rightarrow> string \<Rightarrow> string \<Rightarrow> jsval \<Rightarrow> error + string" where
  "getCollectibleTokenURI en contractAddress tokenId interfaceStandard =
     getCollectibleTokenURI_contract en contractAddress tokenId interfaceStandard"

definition getCollectibleInformationFromTokenURI ::
  "env \<Rightarrow> string \<Rightarrow> string \<Rightarrow> string \<Rightarrow> error + collectible_information" where
  "getCollectibleInformationFromTokenURI en selectedAddress contractAddress tokenId =
     bind (checkNftStandard en contractAddress) (\<lambda>interfaceStandard.
     bind (getCollectibleTokenURI en contractAddress tokenId interfaceStandard) (\<lambda>tokenURI.
     bind (http_get en tokenURI) (\<lambda>object.
     bind (if interfaceStandard = Str (CONTRACT_TYPE_ERC721 en) then Inr (Num 1)
           else getErc1155Balance en contractAddress selectedAddress tokenId) (\<lambda>tokenBalance.
     Inr \<lparr> ci_name = tj_name object,
           ci_image = (case tj_image object of Some v \<Rightarrow> v | None \<Rightarrow> tj_image_url object),
           ci_description = Str [],
           ci_tokenBalance = tokenBalance,
           ci_standard = interfaceStandard \<rparr>))))"

definition null_information :: collectible_information where
  "null_information =
     \<lparr> ci_name = Null, ci_image = Null, ci_description = Null, ci_tokenBalance = Null,
       ci_standard = Null \<rparr>"

definition getCollectibleInfoFromApi ::
  "env \<Rightarrow> string \<Rightarrow> string \<Rightarrow> string \<Rightarrow> error + collectible_information" where
  "getCollectibleInfoFromApi en selectedAddress contractAddress tokenId =
     (let collectibleApi = getCollectibleApi en contractAddress tokenId in
      if collectibleApi = [] then Inr null_information
      else
        bind (getNftMetadata en collectibleApi) (\<lambda>contractData.
          case contractData of
            [] \<Rightarrow> Inr null_information
          | item # _ \<Rightarrow>
              (case nft_data item of
                 None \<Rightarrow> Inl (Thrown ''TypeError'')
               | Some [] \<Rightarrow> Inr null_information
               | Some (nft # _) \<Rightarrow>
                   (case external_data nft of
                      None \<Rightarrow> Inr null_information
                    | Some ext \<Rightarrow>
                        (let standard =
                               (if CONTRACT_TYPE_ERC1155 en \<in> set (supports_erc nft)
                                then CONTRACT_TYPE_ERC1155 en else CONTRACT_TYPE_ERC721 en)
                         in bind (if standard = CONTRACT_TYPE_ERC721 en then Inr (Num 1)
                                  else getErc1155Balance en contractAddress selectedAddress tokenId)
                              (\<lambda>tokenBalance.
                                 Inr \<lparr> ci_name = ext_name ext, ci_image = ext_image ext,
                                       ci_description = ext_description ext,
                                       ci_tokenBalance = tokenBalance,
                                       ci_standard = Str standard \<rparr>))))))"

text \<open>
  \<^verbatim>\<open>getCollectibleInfo\<close>: \<open>None\<close> is the empty object \<^verbatim>\<open>{}\<close> of the \<^verbatim>\<open>catch\<close>.
\<close>

definition getCollectibleInfo ::
  "env \<Rightarrow> string \<Rightarrow> string \<Rightarrow> string \<Rightarrow> bool \<Rightarrow> collectible_information option" where
  "getCollectibleInfo en selectedAddress contractAddress tokenId detectFromApi =
     (let fromTokenURI =
            bind (toChecksumAddress en contractAddress) (\<lambda>a.
              getCollectibleInformationFromTokenURI en selectedAddress a tokenId);
          attempt =
            (if detectFromApi then
               bind (getCollectibleInfoFromApi en selectedAddress contractAddress tokenId) (\<lambda>info.
                 if truthy (ci_name info) \<and> truthy (ci_image info) then Inr info
                 else fromTokenURI)
             else fromTokenURI)
      in case attempt of Inl e \<Rightarrow> None | Inr info \<Rightarrow> Some info)"

text \<open>
  The object \<^verbatim>\<open>{ name, symbol, logo, standard }\<close> of the contract lookups; a property
  that is not set reads as \<open>Undefined\<close>, and \<^verbatim>\<open>{}\<close> is the object with none set.
\<close>

record contract_information =
  cti_name :: jsval
  cti_symbol :: jsval
  cti_logo :: jsval
  cti_standard :: jsval

definition empty_contract_information :: contract_information where
  "empty_contract_information =
     \<lparr> cti_name = Undefined, cti_symbol = Undefined, cti_logo = Undefined,
       cti_standard = Undefined \<rparr>"

definition getCollectibleContractInformationFromContract ::
  "env \<Rightarrow> string \<Rightarrow> error + contract_information" where
  "getCollectibleContractInformationFromContract en contractAddress =
     bind (getAssetName en contractAddress) (\<lambda>name.
     bind (getAssetSymbol en contractAddress) (\<lambda>symbol.
     Inr \<lparr> cti_name = name, cti_symbol = symbol, cti_logo = Undefined,
           cti_standard = Undefined \<rparr>))"

definition getCollectibleContractInformationFromApi ::
  "env \<Rightarrow> string \<Rightarrow> error + contract_information" where
  "getCollectibleContractInformationFromApi en contractAddress =
     (let collectibleContractApi = getCollectibleApi en contractAddress ''1'' in
      bind (getNftMetadata en collectibleContractApi) (\<lambda>contractData.
        case contractData of
          item # _ \<Rightarrow>
            Inr \<lparr> cti_name = contract_name item, cti_symbol = contract_ticker_symbol item,
                  cti_logo = logo_url item, cti_standard = Undefined \<rparr>
        | [] \<Rightarrow>
            Inr \<lparr> cti_name = Null, cti_symbol = Null, cti_logo = Null,
                  cti_standard = Undefined \<rparr>))"

definition getCollectibleContractInformation ::
  "env \<Rightarrow> string \<Rightarrow> bool \<Rightarrow> contract_information" where
  "getCollectibleContractInformation en contractAddress detectFromApi =
     (let fromContract =
            bind (getCollectibleContractInformationFromContract en contractAddress);
          attempt =
            bind (checkNftStandard en contractAddress) (\<lambda>standard.
              if detectFromApi then
                bind (getCollectibleContractInformationFromApi en contractAddress) (\<lambda>information.
                  if truthy (cti_name information) \<and> truthy (cti_symbol information)
                  then Inr (information\<lparr>cti_standard := standard\<rparr>)
                  else fromContract (\<lambda>information. Inr (information\<lparr>cti_standard := standard\<rparr>)))
              else fromContract (\<lambda>information. Inr (information\<lparr>cti_standard := standard\<rparr>)))
      in case attempt of Inl e \<Rightarrow> empty_contract_information | Inr information \<Rightarrow> information)"
section \<open>AssetController: normalizing and storing\<close>

text \<open>
  The entries handed to \<^verbatim>\<open>addCollectibles\<close>:
  \<^verbatim>\<open>{ contractAddress, tokenID, options: { ... } }\<close>. The three sources fill different
  properties of \<open>options\<close>, so each is optional: \<open>None\<close> when the object has no such
  property, \<open>Some v\<close> when it has it with value \<open>v\<close> (which may be \<open>Undefined\<close>).
  The properties \<^verbatim>\<open>standard, description, image, name, contractAddress\<close> of
  \<open>options\<close> carry the prefix \<open>opt_\<close>.
\<close>

record options =
  contractName :: "jsval option"
  contractSymbol :: "jsval option"
  contractImage :: "jsval option"
  contractFallbackLogo :: "jsval option"
  opt_standard :: "jsval option"
  contractDescription :: "jsval option"
  opt_description :: "jsval option"
  opt_image :: "jsval option"
  opt_name :: "jsval option"
  tokenBalance :: "jsval option"
  opt_contractAddress :: "jsval option"
  contractSupply :: "jsval option"

record collectible_details =
  contractAddress :: string
  tokenID :: string
  options :: options

text \<open>Reading a property by destructuring: a missing property reads as \<open>Undefined\<close>.\<close>

definition js_prop :: "jsval option \<Rightarrow> jsval" where
  "js_prop p = (case p of None \<Rightarrow> Undefined | Some v \<Rightarrow> v)"

text \<open>
  \<^verbatim>\<open>_normalizeContractDetails\<close>, given the entry whose properties
  \<^verbatim>\<open>addCollectibles\<close> passes on. \<open>Inr None\<close> is the empty object returned when the
  standard probe fails.
\<close>

definition normalizeContractDetails ::
  "env \<Rightarrow> collectible_details \<Rightarrow> bool \<Rightarrow> error + contract option" where
  "normalizeContractDetails en contractDetails detectFromApi =
     (let contractName = js_prop (contractName (options contractDetails));
          contractSymbol = js_prop (contractSymbol (options contractDetails));
          standard = js_prop (opt_standard (options contractDetails));
          contractAddress = contractAddress contractDetails;
          contractImage = js_prop (contractImage (options contractDetails));
          contractDescription = js_prop (contractDescription (options contractDetails))
      in bind (checksum_or_same en contractAddress) (\<lambda>checksumAddress.
         let normalizedContractInfo =
               (if truthy contractName \<and> truthy contractSymbol \<and> truthy standard then
                  \<lparr> con_standard = standard,
                    con_address = checksumAddress,
                    con_description = js_or contractDescription (Str []),
                    con_logo = contractImage,
                    con_name = contractName,
                    con_symbol = contractSymbol \<rparr>
                else
                  (let information = getCollectibleContractInformation en contractAddress detectFromApi
                   in \<lparr> con_standard = cti_standard information,
                        con_address = checksumAddress,
                        con_description = js_or contractDescription (Str []),
                        con_logo = (if truthy (cti_logo information) then cti_logo information
                                    else contractImage),
                        con_name = cti_name information,
                        con_symbol = cti_symbol information \<rparr>))
         in if \<not> truthy (con_standard normalizedContractInfo) then
              (case checkNftStandard en contractAddress of
                 Inl e \<Rightarrow> Inr None
               | Inr s \<Rightarrow> Inr (Some (normalizedContractInfo\<lparr>con_standard := s\<rparr>)))
            else Inr (Some normalizedContractInfo)))"

text \<open>
  \<^verbatim>\<open>_normalizeCollectibleDetails\<close>. The spread
  \<^verbatim>\<open>{ ...normalizedCollectibleInfo, ...collectibleInfo }\<close> overwrites the five
  properties of a fetched information object, whatever their values, and nothing when
  the lookup gave \<^verbatim>\<open>{}\<close>. In the ERC1155 branch the awaited balance is not assigned.
\<close>

definition normalizeCollectibleDetails ::
  "env \<Rightarrow> string \<Rightarrow> collectible_details \<Rightarrow> bool \<Rightarrow> error + collectible" where
  "normalizeCollectibleDetails en selectedAddress collectibleDetails detectFromApi =
     (let name = js_prop (opt_name (options collectibleDetails));
          image = js_prop (opt_image (options collectibleDetails));
          description = js_prop (opt_description (options collectibleDetails));
          standard = js_prop (opt_standard (options collectibleDetails));
          tokenBalance = js_prop (tokenBalance (options collectibleDetails));
          address = contractAddress collectibleDetails;
          tokenID = tokenID collectibleDetails
      in bind (checksum_or_same en address) (\<lambda>checksumAddress.
         let collectibleIndex = checksumAddress @ ''_'' @ tokenID;
             normalizedCollectibleInfo =
               \<lparr> col_address = checksumAddress,
                 col_tokenId = tokenID,
                 col_name = name,
                 col_image = image,
                 col_description = description,
                 col_standard = standard,
                 col_tokenBalance = tokenBalance,
                 collectibleIndex = collectibleIndex \<rparr>;
             fetched =
               (if \<not> truthy name \<or> \<not> truthy image \<or> \<not> truthy standard
                   \<or> \<not> SUPPORTED_NFT_STANDARDS_has en standard then
                  (case getCollectibleInfo en selectedAddress address tokenID detectFromApi of
                     None \<Rightarrow> normalizedCollectibleInfo
                   | Some collectibleInfo \<Rightarrow>
                       normalizedCollectibleInfo
                         \<lparr> col_name := ci_name collectibleInfo,
                           col_image := ci_image collectibleInfo,
                           col_description := ci_description collectibleInfo,
                           col_tokenBalance := ci_tokenBalance collectibleInfo,
                           col_standard := ci_standard collectibleInfo \<rparr>)
                else normalizedCollectibleInfo)
         in if \<not> truthy (col_tokenBalance fetched) then
              (if col_standard fetched = Str (CONTRACT_TYPE_ERC721 en) then
                 Inr (fetched\<lparr>col_tokenBalance := Num 1\<rparr>)
               else if col_standard fetched = Str (CONTRACT_TYPE_ERC1155 en) then
                 (case getErc1155Balance en checksumAddress selectedAddress tokenID of
                    Inl e \<Rightarrow> Inr (fetched\<lparr>col_tokenBalance := Null\<rparr>)
                  | Inr balance \<Rightarrow> Inr fetched)
               else Inr fetched)
            else Inr fetched))"

text \<open>The store's state object and the controller's own field \<^verbatim>\<open>selectedAddress\<close>.\<close>

record token =
  tok_address :: string
  tok_symbol :: jsval
  tok_decimals :: jsval
  tok_image :: jsval

type_synonym 'a scoped = "string \<Rightarrow> (string \<Rightarrow> 'a list option) option"

record asset_controller =
  allCollectibleContracts :: "contract scoped"
  allCollectibles :: "collectible scoped"
  allTokens :: "token scoped"
  collectibleContracts :: "contract list"
  collectibles :: "collectible list"
  tokens :: "token list"
  selectedAddress :: string

definition initStateObject :: "string \<Rightarrow> asset_controller" where
  "initStateObject a =
     \<lparr> allCollectibleContracts = Map.empty, allCollectibles = Map.empty, allTokens = Map.empty,
       collectibleContracts = [], collectibles = [], tokens = [], selectedAddress = a \<rparr>"

text \<open>\<^verbatim>\<open>(all[address] && all[address][networkType]) || []\<close>.\<close>

definition scope_view :: "'a scoped \<Rightarrow> string \<Rightarrow> string \<Rightarrow> 'a list" where
  "scope_view al address networkType =
     (case al address of
        None \<Rightarrow> []
      | Some byNetwork \<Rightarrow> (case byNetwork networkType of None \<Rightarrow> [] | Some xs \<Rightarrow> xs))"

definition setSelectedAddress :: "env \<Rightarrow> asset_controller \<Rightarrow> string \<Rightarrow> asset_controller" where
  "setSelectedAddress en ac address =
     (let networkType = getNetworkNameFromNetworkCode en
      in ac\<lparr> selectedAddress := address,
             collectibleContracts := scope_view (allCollectibleContracts ac) address networkType,
             collectibles := scope_view (allCollectibles ac) address networkType,
             tokens := scope_view (allTokens ac) address networkType \<rparr>)"

text \<open>
  The first loop of \<^verbatim>\<open>addCollectibles\<close>: one contract request per contract address
  and one collectible request per \<^verbatim>\<open>contractAddress_tokenID\<close> not seen before in this
  call; \<open>collectibleTempIndex\<close> holds the keys seen. A request is kept as the entry it
  is made for.
\<close>

definition request_step ::
  "collectible_details \<Rightarrow> string set \<times> collectible_details list \<times> collectible_details list
     \<Rightarrow> string set \<times> collectible_details list \<times> collectible_details list" where
  "request_step collectibleDetails st =
     (case st of (collectibleTempIndex, contractPromises, collectiblePromises) \<Rightarrow>
        if tokenID collectibleDetails \<noteq> [] \<and> contractAddress collectibleDetails \<noteq> [] then
          (let collectibleIndex =
                 contractAddress collectibleDetails @ ''_'' @ tokenID collectibleDetails;
               newContract = (contractAddress collectibleDetails \<notin> collectibleTempIndex);
               contractPromises1 =
                 (if newContract then contractPromises @ [collectibleDetails] else contractPromises);
               tempIndex1 = insert (contractAddress collectibleDetails) collectibleTempIndex;
               newCollectible = (collectibleIndex \<notin> tempIndex1);
               collectiblePromises1 =
                 (if newCollectible then collectiblePromises @ [collectibleDetails]
                  else collectiblePromises);
               tempIndex2 = insert collectibleIndex tempIndex1
           in (tempIndex2, contractPromises1, collectiblePromises1))
        else st)"

text \<open>The filters of the second loop.\<close>

definition contract_accepted :: "contract option \<Rightarrow> bool" where
  "contract_accepted assetDetail =
     (case assetDetail of
        None \<Rightarrow> False
      | Some c \<Rightarrow> truthy (con_name c) \<and> truthy (con_symbol c))"

definition collectible_accepted :: "collectible \<Rightarrow> bool" where
  "collectible_accepted assetDetail =
     (truthy (col_name assetDetail) \<and> truthy (col_standard assetDetail)
        \<and> truthy (col_tokenBalance assetDetail))"

text \<open>
  The body of the \<^verbatim>\<open>try\<close> in \<^verbatim>\<open>addCollectibles\<close>. The view fields are set to
  \<open>newCollectibleContracts\<close> and \<open>newCollectibles\<close>, the arrays the two merges have
  pushed into.
\<close>

definition addCollectibles_try ::
  "env \<Rightarrow> asset_controller \<Rightarrow> collectible_details list \<Rightarrow> bool \<Rightarrow> error + asset_controller" where
  "addCollectibles_try en ac collectibles_arg detectFromApi =
     (case fold request_step collectibles_arg ({}, [], []) of
        (collectibleTempIndex, contractPromises, collectiblePromises) \<Rightarrow>
     bind (promise_all (map (\<lambda>d. normalizeContractDetails en d detectFromApi) contractPromises))
       (\<lambda>contractDetails.
     bind (promise_all (map (\<lambda>d. normalizeCollectibleDetails en (selectedAddress ac) d detectFromApi)
                          collectiblePromises))
       (\<lambda>collectibleDetails.
     let newCollectibleContracts0 = List.map_filter (\<lambda>x. if contract_accepted x then x else None) contractDetails;
         newCollectibles0 = filter collectible_accepted collectibleDetails;
         oldCollectibles = collectibles ac;
         oldCollectibleContracts = collectibleContracts ac;
         (finalContracts, newCollectibleContracts) =
            mergeContractArrays oldCollectibleContracts newCollectibleContracts0;
         (finalCollectibles, newCollectibles) =
            mergeCollectibleArrays oldCollectibles newCollectibles0;
         networkType = getNetworkNameFromNetworkCode en;
         addressCollectibles =
           (case allCollectibles ac (selectedAddress ac) of None \<Rightarrow> Map.empty | Some m \<Rightarrow> m);
         newAddressCollectibles = addressCollectibles(networkType \<mapsto> finalCollectibles);
         newAllCollectibles = (allCollectibles ac)(selectedAddress ac \<mapsto> newAddressCollectibles);
         addressCollectibleContracts =
           (case allCollectibleContracts ac (selectedAddress ac) of None \<Rightarrow> Map.empty | Some m \<Rightarrow> m);
         newAddressCollectibleContracts =
           addressCollectibleContracts(networkType \<mapsto> finalContracts);
         newAllCollectibleContracts =
           (allCollectibleContracts ac)(selectedAddress ac \<mapsto> newAddressCollectibleContracts)
     in Inr (ac\<lparr> allCollectibleContracts := newAllCollectibleContracts,
                 collectibleContracts := newCollectibleContracts,
                 allCollectibles := newAllCollectibles,
                 collectibles := newCollectibles \<rparr>))))"

text \<open>\<^verbatim>\<open>addCollectibles\<close>: a rejection is logged and leaves the store as it was.\<close>

definition addCollectibles ::
  "env \<Rightarrow> asset_controller \<Rightarrow> collectible_details list \<Rightarrow> bool \<Rightarrow> asset_controller" where
  "addCollectibles en ac collectibles_arg detectFromApi =
     (case addCollectibles_try en ac collectibles_arg detectFromApi of
        Inl e \<Rightarrow> ac
      | Inr ac' \<Rightarrow> ac')"
section \<open>AssetsDetectionController: collaborators and strings\<close>

text \<open>
  Template literals turn a value into its string; \<^verbatim>\<open>toLowerCase\<close> and the one-shot
  \<^verbatim>\<open>replace\<close> of a literal pattern act on ASCII text.
\<close>

fun string_of_nat :: "nat \<Rightarrow> string" where
  "string_of_nat n =
     (if n < 10 then [char_of (48 + n)]
      else string_of_nat (n div 10) @ [char_of (48 + n mod 10)])"

definition js_to_string :: "jsval \<Rightarrow> string" where
  "js_to_string v =
     (case v of
        Undefined \<Rightarrow> ''undefined''
      | Null \<Rightarrow> ''null''
      | Str s \<Rightarrow> s
      | Num n \<Rightarrow> (if n < 0 then ''-'' @ string_of_nat (nat (- n)) else string_of_nat (nat n)))"

definition lower_char :: "char \<Rightarrow> char" where
  "lower_char c =
     (let n = (of_char c :: nat) in if 65 \<le> n \<and> n \<le> 90 then char_of (n + 32) else c)"

definition toLowerCase :: "string \<Rightarrow> string" where
  "toLowerCase s = map lower_char s"

fun replace_first :: "string \<Rightarrow> string \<Rightarrow> string \<Rightarrow> string" where
  "replace_first pat rep [] = (if pat = [] then rep else [])"
| "replace_first pat rep (c # cs) =
     (if take (length pat) (c # cs) = pat then rep @ drop (length pat) (c # cs)
      else c # replace_first pat rep cs)"

text \<open>
  What \<^verbatim>\<open>NftHandler.getNftMetadata\<close> resolves to, with the property names the
  controller reads.
\<close>

record nft_metadata =
  decription :: jsval
  nftImageLink :: jsval
  nftName :: jsval

text \<open>An entry of the user's \<^verbatim>\<open>customNfts\<close> list.\<close>

record custom_nft =
  nft_address :: string
  nft_id :: string
  nft_contract_standard :: string
  network :: string
  description :: jsval
  nft_image_link :: jsval
  nft_name :: jsval

text \<open>
  An asset of the OpenSea answer and its \<^verbatim>\<open>asset_contract\<close>. A schema name or
  a contract image that is \<^verbatim>\<open>undefined\<close> or \<^verbatim>\<open>null\<close> is \<open>None\<close>.
\<close>

record asset_contract =
  schema_name :: "string option"
  ac_address :: string
  ac_name :: jsval
  ac_symbol :: jsval
  ac_image_url :: "string option"
  total_supply :: jsval
  ac_description :: jsval

record opensea_asset =
  os_token_id :: string
  os_image_url :: jsval
  os_name :: jsval
  os_description :: jsval
  asset_contract :: asset_contract

record opensea_response =
  assets :: "opensea_asset list"
  results :: "opensea_asset list"

text \<open>
  The detection controller's collaborators: the balance and metadata lookups of an
  \<^verbatim>\<open>NftHandler\<close> built for (address, tokenId, userAddress, nftStandard), the two
  provider fetchers, the network name, and the constants of \<^verbatim>\<open>utils/enums\<close> and
  \<^verbatim>\<open>utils/utils\<close>.
\<close>

record detection_env =
  fetchNftBalance :: "string \<Rightarrow> string \<Rightarrow> string \<Rightarrow> string \<Rightarrow> error + jsval"
  handler_getNftMetadata :: "string \<Rightarrow> string \<Rightarrow> string \<Rightarrow> string \<Rightarrow> error + nft_metadata"
  getCovalentNfts :: "string \<Rightarrow> error + covalent_item list"
  getOpenSeaCollectibles :: "string \<Rightarrow> error + opensea_response"
  networkName :: string
  MAINNET :: string
  MATIC :: string
  BSC_MAINNET :: string
  SUPPORTED_NETWORKS :: "string \<Rightarrow> string option"
  ERC721 :: string
  ERC1155 :: string
  SUPPORTED_NFT_STANDARDS :: "string list"
  isMain :: bool

definition isMainnet :: "detection_env \<Rightarrow> bool" where
  "isMainnet den = (networkName den = MAINNET den)"

definition isMatic :: "detection_env \<Rightarrow> bool" where
  "isMatic den = (networkName den = MATIC den)"

text \<open>A chain id of \<^verbatim>\<open>NFT_SUPPORTED_NETWORKS\<close> that passes \<^verbatim>\<open>if (chainId)\<close>.\<close>

definition supported_chain :: "detection_env \<Rightarrow> string \<Rightarrow> string option" where
  "supported_chain den n =
     (case SUPPORTED_NETWORKS den n of
        Some chainId \<Rightarrow> (if chainId \<noteq> [] then Some chainId else None)
      | None \<Rightarrow> None)"

text \<open>The index key \<^verbatim>\<open>`${contractAddress.toLowerCase()}_${tokenID.toString()}`\<close>.\<close>

definition index_key :: "collectible_details \<Rightarrow> string" where
  "index_key c = toLowerCase (contractAddress c) @ ''_'' @ tokenID c"

section \<open>AssetsDetectionController: user-supplied entries\<close>

definition custom_collectible ::
  "custom_nft \<Rightarrow> jsval \<Rightarrow> jsval \<Rightarrow> jsval \<Rightarrow> jsval \<Rightarrow> collectible_details" where
  "custom_collectible x balance description_v nft_image_link_v nft_name_v =
     \<lparr> contractAddress = nft_address x,
       tokenID = nft_id x,
       options =
         \<lparr> contractName = Some nft_name_v,
           contractSymbol = Some nft_name_v,
           contractImage = Some nft_image_link_v,
           contractFallbackLogo = Some nft_image_link_v,
           opt_standard = Some (Str (toLowerCase (nft_contract_standard x))),
           contractDescription = Some description_v,
           opt_description = Some description_v,
           opt_image = Some nft_image_link_v,
           opt_name = Some (Str (js_to_string nft_name_v @ ''#'' @ nft_id x)),
           tokenBalance = Some balance,
           opt_contractAddress = None,
           contractSupply = None \<rparr> \<rparr>"

text \<open>
  The callback of \<^verbatim>\<open>currentNetworkTokens.map\<close>: \<open>None\<close> is the \<^verbatim>\<open>undefined\<close> that
  the \<^verbatim>\<open>catch\<close> returns, for a failed lookup and for the error thrown on balance 0.
\<close>

definition resolve_custom :: "detection_env \<Rightarrow> string \<Rightarrow> custom_nft \<Rightarrow> collectible_details option" where
  "resolve_custom den userAddress x =
     (case fetchNftBalance den (nft_address x) (nft_id x) userAddress (nft_contract_standard x) of
        Inl e \<Rightarrow> None
      | Inr balance \<Rightarrow>
          if balance = Num 0 then None
          else if \<not> truthy (description x) \<or> \<not> truthy (nft_image_link x) \<or> \<not> truthy (nft_name x) then
            (case handler_getNftMetadata den (nft_address x) (nft_id x) userAddress
                    (nft_contract_standard x) of
               Inl e \<Rightarrow> None
             | Inr nftMetadata \<Rightarrow>
                 Some (custom_collectible x balance (decription nftMetadata)
                         (nftImageLink nftMetadata) (nftName nftMetadata)))
          else Some (custom_collectible x balance (description x) (nft_image_link x) (nft_name x)))"

text \<open>
  \<^verbatim>\<open>getCustomNfts\<close> returns \<^verbatim>\<open>[nonZeroTokens, collectiblesMap]\<close>. The list
  \<open>customNfts\<close> is \<open>None\<close> when the preferences hold none for the address, and then
  \<^verbatim>\<open>customNfts.map\<close> throws. The callbacks are taken to finish in list order; the
  order only decides which of two entries with one index key the map keeps. With
  \<^verbatim>\<open>forceUpdateStore\<close> the same \<open>nonZeroTokens\<close>, and nothing else, are also handed to
  \<^verbatim>\<open>addCollectibles\<close>.
\<close>

definition getCustomNfts ::
  "detection_env \<Rightarrow> string \<Rightarrow> custom_nft list option
     \<Rightarrow> error + collectible_details list \<times> collectible_details jsobj" where
  "getCustomNfts den userAddress customNfts =
     (if userAddress = [] then Inr ([], [])
      else
        (case customNfts of
           None \<Rightarrow> Inl (Thrown ''TypeError'')
         | Some nfts \<Rightarrow>
             (let localNetwork = networkName den;
                  currentNetworkTokens = filter (\<lambda>x. network x = localNetwork) nfts;
                  nonZeroTokens = List.map_filter (resolve_custom den userAddress) currentNetworkTokens;
                  collectiblesMap = fold (\<lambda>c m. obj_set m (index_key c) c) nonZeroTokens []
              in Inr (nonZeroTokens, collectiblesMap))))"

section \<open>AssetsDetectionController: the two providers\<close>

definition getOwnerCollectiblesApi :: "detection_env \<Rightarrow> string \<Rightarrow> string \<Rightarrow> string" where
  "getOwnerCollectiblesApi den address apiType =
     (if apiType = ''opensea'' then
        (if networkName den = MAINNET den then
           ''https://api.opensea.io/api/v1/assets?owner='' @ address @ ''&limit=300''
         else if networkName den = MATIC den then
           ''https://api.opensea.io/api/v2/assets/matic?owner='' @ address @ ''&limit=300''
         else [])
      else
        (case supported_chain den (networkName den) of
           Some chainId \<Rightarrow>
             ''https://api.covalenthq.com/v1/'' @ chainId @ ''/address/'' @ address
               @ ''/balances_v2/?nft=true&no-nft-fetch=false''
         | None \<Rightarrow> []))"

definition getOwnerCollectibles_covalent :: "detection_env \<Rightarrow> string \<Rightarrow> covalent_item list" where
  "getOwnerCollectibles_covalent den selectedAddress_v =
     (let api = getOwnerCollectiblesApi den selectedAddress_v ''covalent'' in
      case supported_chain den (networkName den) of
        Some chainId \<Rightarrow> (case getCovalentNfts den api of Inl e \<Rightarrow> [] | Inr items \<Rightarrow> items)
      | None \<Rightarrow> [])"

definition getOwnerCollectibles_opensea :: "detection_env \<Rightarrow> string \<Rightarrow> opensea_asset list" where
  "getOwnerCollectibles_opensea den selectedAddress_v =
     (let api = getOwnerCollectiblesApi den selectedAddress_v ''opensea'' in
      case getOpenSeaCollectibles den api of
        Inl e \<Rightarrow> []
      | Inr response \<Rightarrow>
          if isMainnet den then assets response
          else if isMatic den then results response
          else [])"

text \<open>
  The inner loop of \<^verbatim>\<open>detectCollectiblesFromCovalent\<close> over \<^verbatim>\<open>nft_data.entries()\<close>.
  \<open>contractName\<close> and \<open>contractFallbackLogo\<close> are declared outside the loop, so their
  values pass from one round to the next; \<open>i\<close> is the position.
\<close>

fun covalent_tokens ::
  "detection_env \<Rightarrow> string \<Rightarrow> covalent_item \<Rightarrow> jsval \<Rightarrow> jsval \<Rightarrow> nat \<Rightarrow> covalent_nft list
     \<Rightarrow> collectible_details list" where
  "covalent_tokens den protocolPrefix item contractName_v contractFallbackLogo_v i [] = []"
| "covalent_tokens den protocolPrefix item contractName_v contractFallbackLogo_v i (nft # rest) =
     (let is1155 = (''erc1155'' \<in> set (supports_erc nft));
          contractName1 =
            (if is1155 then js_to_string contractName_v @ '' ('' @ protocolPrefix @ ''1155)''
             else js_to_string contractName_v @ '' ('' @ protocolPrefix @ ''721)'');
          standard = (if is1155 then ERC1155 den else ERC721 den);
          name = (case external_data nft of None \<Rightarrow> Undefined | Some e \<Rightarrow> ext_name e);
          description_v = (case external_data nft of None \<Rightarrow> Undefined | Some e \<Rightarrow> ext_description e);
          imageURL = js_or (case external_data nft of None \<Rightarrow> Undefined | Some e \<Rightarrow> ext_image e)
                       (Str ''/images/nft-placeholder.svg'');
          contractFallbackLogo1 = (if i = 0 then imageURL else contractFallbackLogo_v);
          collectibleDetails =
            \<lparr> contractAddress = contract_address item,
              tokenID = token_id nft,
              options =
                \<lparr> contractName = Some (Str contractName1),
                  contractSymbol = Some (contract_ticker_symbol item),
                  contractImage = Some (logo_url item),
                  contractFallbackLogo = Some contractFallbackLogo1,
                  opt_standard = Some (Str standard),
                  contractDescription = Some (Str []),
                  opt_description = Some description_v,
                  opt_image = Some imageURL,
                  opt_name = Some (js_or name (Str (contractName1 @ ''#'' @ token_id nft))),
                  tokenBalance = Some (token_balance nft),
                  opt_contractAddress = None,
                  contractSupply = None \<rparr> \<rparr>
      in collectibleDetails
           # covalent_tokens den protocolPrefix item (Str contractName1) contractFallbackLogo1 (Suc i) rest)"

text \<open>The body of the outer loop for one item of the answer.\<close>

definition covalent_item_collectibles ::
  "detection_env \<Rightarrow> string \<Rightarrow> covalent_item \<Rightarrow> collectible_details list" where
  "covalent_item_collectibles den protocolPrefix item =
     (if item_type item = Str ''nft'' then
        (case nft_data item of
           None \<Rightarrow> []
         | Some nfts \<Rightarrow> covalent_tokens den protocolPrefix item (contract_name item) Undefined 0 nfts)
      else [])"

definition collectibles_map :: "collectible_details list \<Rightarrow> collectible_details jsobj" where
  "collectibles_map cs = fold (\<lambda>c m. obj_set m (index_key c) c) cs []"

definition detectCollectiblesFromCovalent ::
  "detection_env \<Rightarrow> string \<Rightarrow> string
     \<Rightarrow> collectible_details list \<times> collectible_details jsobj" where
  "detectCollectiblesFromCovalent den selectedAddress_v network_v =
     (if selectedAddress_v = [] then ([], [])
      else
        (let protocolPrefix = (if network_v = BSC_MAINNET den then ''BEP'' else ''ERC'');
             apiCollectibles = getOwnerCollectibles_covalent den selectedAddress_v;
             collectibles_v = concat (map (covalent_item_collectibles den protocolPrefix) apiCollectibles)
         in (collectibles_v, collectibles_map collectibles_v)))"

text \<open>
  The loop body of \<^verbatim>\<open>detectCollectiblesFromOpensea\<close>: \<open>None\<close> for an asset whose
  standard is not in \<^verbatim>\<open>SUPPORTED_NFT_STANDARDS\<close>.
\<close>

definition opensea_collectible :: "detection_env \<Rightarrow> opensea_asset \<Rightarrow> collectible_details option" where
  "opensea_collectible den a =
     (case schema_name (asset_contract a) of
        None \<Rightarrow> None
      | Some standard \<Rightarrow>
          if toLowerCase standard \<in> set (SUPPORTED_NFT_STANDARDS den) then
            (let contractImage_v = (case ac_image_url (asset_contract a) of None \<Rightarrow> [] | Some u \<Rightarrow> u);
                 upgraded = Str (replace_first ''=s60'' ''=s240'' contractImage_v);
                 imageURL = os_image_url a
             in Some
                  \<lparr> contractAddress = ac_address (asset_contract a),
                    tokenID = os_token_id a,
                    options =
                      \<lparr> contractName = Some (ac_name (asset_contract a)),
                        contractSymbol = Some (ac_symbol (asset_contract a)),
                        contractImage = Some (js_or upgraded imageURL),
                        contractFallbackLogo = None,
                        opt_standard = Some (Str (toLowerCase standard)),
                        contractDescription = Some (ac_description (asset_contract a)),
                        opt_description = Some (os_description a),
                        opt_image = Some (js_or imageURL upgraded),
                        opt_name =
                          Some (js_or (os_name a)
                                  (Str (js_to_string (ac_name (asset_contract a)) @ ''#'' @ os_token_id a))),
                        tokenBalance = None,
                        opt_contractAddress = Some (Str (ac_address (asset_contract a))),
                        contractSupply = Some (total_supply (asset_contract a)) \<rparr> \<rparr>)
          else None)"

definition detectCollectiblesFromOpensea ::
  "detection_env \<Rightarrow> string \<Rightarrow> collectible_details list \<times> collectible_details jsobj" where
  "detectCollectiblesFromOpensea den selectedAddress_v =
     (if \<not> isMainnet den \<and> \<not> isMatic den then ([], [])
      else if selectedAddress_v = [] then ([], [])
      else
        (let apiCollectibles = getOwnerCollectibles_opensea den selectedAddress_v;
             finalCollectibles = List.map_filter (opensea_collectible den) apiCollectibles
         in (finalCollectibles, collectibles_map finalCollectibles)))"

section \<open>AssetsDetectionController: merging the sources\<close>

text \<open>
  \<^verbatim>\<open>deepmerge(target, source)\<close> of the npm package deepmerge on two entries: the result
  has the properties of the target, and every property of the source is written over
  them, whatever its value; a property that is an object on both sides (\<open>options\<close>) is
  merged in the same way. The property values of \<open>options\<close> are not objects.
\<close>

definition merge_prop :: "jsval option \<Rightarrow> jsval option \<Rightarrow> jsval option" where
  "merge_prop t s = (case s of None \<Rightarrow> t | Some v \<Rightarrow> Some v)"

definition deepmerge_options :: "options \<Rightarrow> options \<Rightarrow> options" where
  "deepmerge_options t s =
     \<lparr> contractName = merge_prop (contractName t) (contractName s),
       contractSymbol = merge_prop (contractSymbol t) (contractSymbol s),
       contractImage = merge_prop (contractImage t) (contractImage s),
       contractFallbackLogo = merge_prop (contractFallbackLogo t) (contractFallbackLogo s),
       opt_standard = merge_prop (opt_standard t) (opt_standard s),
       contractDescription = merge_prop (contractDescription t) (contractDescription s),
       opt_description = merge_prop (opt_description t) (opt_description s),
       opt_image = merge_prop (opt_image t) (opt_image s),
       opt_name = merge_prop (opt_name t) (opt_name s),
       tokenBalance = merge_prop (tokenBalance t) (tokenBalance s),
       opt_contractAddress = merge_prop (opt_contractAddress t) (opt_contractAddress s),
       contractSupply = merge_prop (contractSupply t) (contractSupply s) \<rparr>"

definition deepmerge :: "collectible_details \<Rightarrow> collectible_details \<Rightarrow> collectible_details" where
  "deepmerge t s =
     \<lparr> contractAddress = contractAddress s,
       tokenID = tokenID s,
       options = deepmerge_options (options t) (options s) \<rparr>"

text \<open>
  The loop over \<^verbatim>\<open>Object.keys(openseaCollectiblesMap)\<close> and the loop over
  \<^verbatim>\<open>Object.keys(covalentCollectiblesMap)\<close>, pushing into \<open>finalArr\<close>. A value of
  one of the maps is an entry, hence truthy when the key is present.
\<close>

definition push_opensea ::
  "collectible_details jsobj \<Rightarrow> collectible_details jsobj \<Rightarrow> collectible_details jsobj
     \<Rightarrow> collectible_details list \<Rightarrow> collectible_details list" where
  "push_opensea customCollectiblesMap covalentCollectiblesMap openseaCollectiblesMap finalArr =
     fold (\<lambda>(x, openseaCollectible) arr.
             if obj_get customCollectiblesMap x = None then
               (case obj_get covalentCollectiblesMap x of
                  Some covalentCollectible \<Rightarrow> arr @ [deepmerge covalentCollectible openseaCollectible]
                | None \<Rightarrow> arr @ [openseaCollectible])
             else arr)
       openseaCollectiblesMap finalArr"

definition push_covalent ::
  "collectible_details jsobj \<Rightarrow> collectible_details jsobj
     \<Rightarrow> collectible_details list \<Rightarrow> collectible_details list" where
  "push_covalent customCollectiblesMap covalentCollectiblesMap finalArr =
     fold (\<lambda>(x, covalentCollectible) arr.
             if obj_get customCollectiblesMap x = None then arr @ [covalentCollectible] else arr)
       covalentCollectiblesMap finalArr"

text \<open>
  \<^verbatim>\<open>detectCollectibles\<close>, up to the array it hands to
  \<^verbatim>\<open>assetController.addCollectibles(finalArr, false)\<close>. \<open>preferencesStore\<close> is \<open>None\<close>
  when the controller has none (reading its state then throws); otherwise it gives the
  \<open>customNfts\<close> of an address, \<open>None\<close> when there are none. Before fetching, each
  adapter makes the store's view the one of the selected address
  (\<^verbatim>\<open>setSelectedAddress\<close>), so the merge in \<^verbatim>\<open>addCollectibles\<close> starts from the
  arrays stored for that address and network.
\<close>

definition detectCollectibles ::
  "detection_env \<Rightarrow> (string \<Rightarrow> custom_nft list option) option \<Rightarrow> string
     \<Rightarrow> error + collectible_details list" where
  "detectCollectibles den preferencesStore selectedAddress_v =
     (case preferencesStore of
        None \<Rightarrow> Inl (Thrown ''TypeError'')
      | Some getState \<Rightarrow>
          bind (getCustomNfts den selectedAddress_v (getState selectedAddress_v))
            (\<lambda>(customNftArr, customCollectiblesMap).
               let currentNetwork = networkName den;
                   finalArr = customNftArr
               in if isMainnet den \<or> isMatic den then
                    (let openseaCollectiblesMap = snd (detectCollectiblesFromOpensea den selectedAddress_v);
                         covalentCollectiblesMap =
                           snd (detectCollectiblesFromCovalent den selectedAddress_v currentNetwork)
                     in if length (obj_keys openseaCollectiblesMap) > 0 then
                          Inr (push_opensea customCollectiblesMap covalentCollectiblesMap
                                 openseaCollectiblesMap finalArr)
                        else
                          Inr (push_covalent customCollectiblesMap covalentCollectiblesMap finalArr))
                  else
                    (let covalentCollectiblesMap =
                           snd (detectCollectiblesFromCovalent den selectedAddress_v currentNetwork)
                     in Inr (push_covalent customCollectiblesMap covalentCollectiblesMap finalArr))))"

section \<open>AssetsDetectionController: the polling timer\<close>

text \<open>
  The controller's \<open>selectedAddress\<close> (here \<open>active_address\<close>) and \<open>_handle\<close>, together with the timers of the
  runtime: \<^verbatim>\<open>setInterval\<close> starts a timer under a fresh non-zero handle,
  \<^verbatim>\<open>clearInterval\<close> ends the timer of a handle. \<open>detections\<close> counts the calls of
  \<^verbatim>\<open>detectAssets\<close>.
\<close>

record poller =
  active_address :: string
  handle :: "nat option"
  live_timers :: "nat list"
  next_handle :: nat
  detections :: nat

definition DEFAULT_INTERVAL :: nat where
  "DEFAULT_INTERVAL = 60000"

definition clearInterval :: "nat \<Rightarrow> poller \<Rightarrow> poller" where
  "clearInterval h p = p\<lparr>live_timers := removeAll h (live_timers p)\<rparr>"

text \<open>The setter \<^verbatim>\<open>set interval(interval)\<close>; \<open>0\<close> stands for a falsy argument.\<close>

definition set_interval :: "detection_env \<Rightarrow> poller \<Rightarrow> nat \<Rightarrow> poller" where
  "set_interval den p interval =
     (let p1 = (case handle p of Some h \<Rightarrow> clearInterval h p | None \<Rightarrow> p)
      in if interval = 0 then p1
         else if isMain den then
           p1\<lparr> handle := Some (next_handle p1),
               live_timers := live_timers p1 @ [next_handle p1],
               next_handle := Suc (next_handle p1) \<rparr>
         else p1)"

definition detectAssets :: "poller \<Rightarrow> poller" where
  "detectAssets p = p\<lparr>detections := Suc (detections p)\<rparr>"

text \<open>
  The constructor, as far as the timer goes: \<^verbatim>\<open>options.interval || DEFAULT_INTERVAL\<close>
  and \<^verbatim>\<open>options.selectedAddress || ''\<close>.
\<close>

definition new_poller :: "detection_env \<Rightarrow> nat \<Rightarrow> string \<Rightarrow> poller" where
  "new_poller den interval_option selectedAddress_option =
     (let p0 = \<lparr> active_address = [], handle = None, live_timers = [], next_handle = 1,
                 detections = 0 \<rparr>;
          p1 = set_interval den p0 (if interval_option = 0 then DEFAULT_INTERVAL else interval_option)
      in p1\<lparr>active_address := selectedAddress_option\<rparr>)"

definition restartAssetDetection :: "detection_env \<Rightarrow> poller \<Rightarrow> poller" where
  "restartAssetDetection den p =
     (if active_address p = [] then p
      else set_interval den (detectAssets p) DEFAULT_INTERVAL)"

definition startAssetDetection :: "detection_env \<Rightarrow> poller \<Rightarrow> string \<Rightarrow> poller" where
  "startAssetDetection den p selectedAddress_v =
     restartAssetDetection den (p\<lparr>active_address := selectedAddress_v\<rparr>)"

definition stopAssetDetection :: "poller \<Rightarrow> poller" where
  "stopAssetDetection p = p\<lparr>active_address := []\<rparr>"

text \<open>A tick of a live timer calls \<^verbatim>\<open>detectAssets\<close>; without a live timer there is none.\<close>

definition tick :: "poller \<Rightarrow> poller option" where
  "tick p = (if live_timers p = [] then None else Some (detectAssets p))"

datatype poller_op = Start string | Stop | Restart | SetInterval nat

fun apply_op :: "detection_env \<Rightarrow> poller_op \<Rightarrow> poller \<Rightarrow> poller" where
  "apply_op den (Start a) p = startAssetDetection den p a"
| "apply_op den Stop p = stopAssetDetection p"
| "apply_op den Restart p = restartAssetDetection den p"
| "apply_op den (SetInterval n) p = set_interval den p n"

text \<open>
  For the statements below: the text that one round of the Covalent loop appends to the
  running contract label.
\<close>

definition label_suffix :: "string \<Rightarrow> covalent_nft \<Rightarrow> string" where
  "label_suffix protocolPrefix nft =
     (if ''erc1155'' \<in> set (supports_erc nft) then '' ('' @ protocolPrefix @ ''1155)''
      else '' ('' @ protocolPrefix @ ''721)'')"

section \<open>Example data\<close>

text \<open>
  A fixed environment and a few entries, for evaluating the definitions: the network
  is mainnet, the chain answers every balance lookup with 5 and every standard probe
  with ERC1155, and the HTTP helpers are offline. The short addresses are not valid
  addresses, so no checksum is taken.
\<close>

definition ex_env :: env where
  "ex_env =
     \<lparr> isAddress = (\<lambda>a. False),
       toChecksumAddress = (\<lambda>a. Inr a),
       checkNftStandard = (\<lambda>a. Inr (Str ''erc1155'')),
       getErc1155Balance = (\<lambda>a owner_v t. Inr (Num 5)),
       getAssetName = (\<lambda>a. Inr (Str ''Asset'')),
       getAssetSymbol = (\<lambda>a. Inr (Str [])),
       getCollectibleTokenURI_contract = (\<lambda>a t s. Inr ''ipfs://token''),
       http_get = (\<lambda>u. Inl (Thrown ''offline'')),
       getNftMetadata = (\<lambda>u. Inl (Thrown ''offline'')),
       getNetworkNameFromNetworkCode = ''mainnet'',
       NFT_SUPPORTED_NETWORKS = (\<lambda>n. if n = ''mainnet'' then Some ''1'' else None),
       CONTRACT_TYPE_ERC721 = ''erc721'',
       CONTRACT_TYPE_ERC1155 = ''erc1155'' \<rparr>"

definition ex_old_collectible :: collectible where
  "ex_old_collectible =
     \<lparr> col_address = ''0xAA'', col_tokenId = ''1'', col_name = Str ''Kitty #1'',
       col_image = Str ''kitty.png'', col_description = Str [], col_standard = Str ''erc721'',
       col_tokenBalance = Num 1, collectibleIndex = ''0xAA_1'' \<rparr>"

definition ex_new_collectible :: collectible where
  "ex_new_collectible =
     \<lparr> col_address = ''0xBB'', col_tokenId = ''7'', col_name = Str ''Land #7'',
       col_image = Str ''land.png'', col_description = Str [], col_standard = Str ''erc1155'',
       col_tokenBalance = Num 3, collectibleIndex = ''0xBB_7'' \<rparr>"

definition ex_old_contract :: contract where
  "ex_old_contract =
     \<lparr> con_standard = Str ''erc721'', con_address = ''0xAA'', con_description = Str [],
       con_logo = Str ''kitty-logo.png'', con_name = Str ''Kitties'', con_symbol = Str ''KIT'' \<rparr>"

definition ex_new_contract :: contract where
  "ex_new_contract =
     \<lparr> con_standard = Str ''erc1155'', con_address = ''0xBB'', con_description = Str [],
       con_logo = Str ''land-logo.png'', con_name = Str ''Lands'', con_symbol = Str ''LND'' \<rparr>"

text \<open>
  An ERC1155 entry as the OpenSea adapter builds it: name, image and standard are
  set, and \<open>options\<close> has no \<open>tokenBalance\<close>.
\<close>

definition ex_erc1155_entry :: collectible_details where
  "ex_erc1155_entry =
     \<lparr> contractAddress = ''0xCC'',
       tokenID = ''9'',
       options =
         \<lparr> contractName = Some (Str ''Lands''),
           contractSymbol = Some (Str ''LND''),
           contractImage = Some (Str ''land-logo.png''),
           contractFallbackLogo = None,
           opt_standard = Some (Str ''erc1155''),
           contractDescription = Some (Str ''Plots of land''),
           opt_description = Some (Str ''Plot 9''),
           opt_image = Some (Str ''plot9.png''),
           opt_name = Some (Str ''Plot #9''),
           tokenBalance = None,
           opt_contractAddress = Some (Str ''0xCC''),
           contractSupply = Some Null \<rparr> \<rparr>"

text \<open>An ERC721 entry as the Covalent adapter builds it.\<close>

definition ex_erc721_entry :: collectible_details where
  "ex_erc721_entry =
     \<lparr> contractAddress = ''0xAA'',
       tokenID = ''1'',
       options =
         \<lparr> contractName = Some (Str ''Kitties (ERC721)''),
           contractSymbol = Some (Str ''KIT''),
           contractImage = Some (Str ''kitty-logo.png''),
           contractFallbackLogo = Some (Str ''kitty.png''),
           opt_standard = Some (Str ''erc721''),
           contractDescription = Some (Str []),
           opt_description = Some (Str ''A kitty''),
           opt_image = Some (Str ''kitty.png''),
           opt_name = Some (Str ''Kitty #1''),
           tokenBalance = Some (Str ''1''),
           opt_contractAddress = None,
           contractSupply = None \<rparr> \<rparr>"

text \<open>
  A detection environment on mainnet. Covalent reports one contract with the two
  tokens 7 and 8; OpenSea reports token 7 of the same contract, with no description.
  The chain reports balance 0 for the contract \<open>0xDD\<close>, fails for \<open>0xEE\<close> and
  reports 1 otherwise.
\<close>

definition ex_covalent_item :: covalent_item where
  "ex_covalent_item =
     \<lparr> item_type = Str ''nft'',
       contract_name = Str ''Lands'',
       contract_ticker_symbol = Str ''LND'',
       contract_address = ''0xBB'',
       logo_url = Str ''land-logo.png'',
       nft_data = Some
         [\<lparr> token_id = ''7'', token_balance = Str ''3'',
             external_data = Some \<lparr> ext_name = Str ''Plot 7'', ext_description = Str ''Seven'',
                                    ext_image = Str ''p7.png'' \<rparr>,
             supports_erc = [''erc20'', ''erc1155''] \<rparr>,
          \<lparr> token_id = ''8'', token_balance = Str ''1'',
             external_data = None,
             supports_erc = [''erc20'', ''erc1155''] \<rparr>] \<rparr>"

definition ex_opensea_asset :: opensea_asset where
  "ex_opensea_asset =
     \<lparr> os_token_id = ''7'',
       os_image_url = Str ''os7.png'',
       os_name = Str ''OpenSea Plot 7'',
       os_description = Null,
       asset_contract =
         \<lparr> schema_name = Some ''ERC1155'',
           ac_address = ''0xbb'',
           ac_name = Str ''Lands'',
           ac_symbol = Str ''LND'',
           ac_image_url = Some ''logo=s60'',
           total_supply = Null,
           ac_description = Null \<rparr> \<rparr>"

definition ex_den :: detection_env where
  "ex_den =
     \<lparr> fetchNftBalance =
         (\<lambda>a t u s. if a = ''0xDD'' then Inr (Num 0)
                    else if a = ''0xEE'' then Inl (Thrown ''call reverted'')
                    else Inr (Num 1)),
       handler_getNftMetadata =
         (\<lambda>a t u s. Inr \<lparr> decription = Undefined, nftImageLink = Str ''custom.png'',
                           nftName = Str ''Custom'' \<rparr>),
       getCovalentNfts = (\<lambda>u. Inr [ex_covalent_item]),
       getOpenSeaCollectibles = (\<lambda>u. Inr \<lparr> assets = [ex_opensea_asset], results = [] \<rparr>),
       networkName = ''mainnet'',
       MAINNET = ''mainnet'',
       MATIC = ''matic'',
       BSC_MAINNET = ''bsc_mainnet'',
       SUPPORTED_NETWORKS = (\<lambda>n. if n = ''mainnet'' then Some ''1'' else None),
       ERC721 = ''erc721'',
       ERC1155 = ''erc1155'',
       SUPPORTED_NFT_STANDARDS = [''erc1155'', ''erc721''],
       isMain = True \<rparr>"

text \<open>Three user-supplied entries, and preferences that hold them for every address.\<close>

definition ex_custom_owned :: custom_nft where
  "ex_custom_owned =
     \<lparr> nft_address = ''0xAA'', nft_id = ''1'', nft_contract_standard = ''ERC721'',
       network = ''mainnet'', description = Str ''A kitty'', nft_image_link = Str ''kitty.png'',
       nft_name = Str ''Kitty'' \<rparr>"

definition ex_custom_zero :: custom_nft where
  "ex_custom_zero =
     \<lparr> nft_address = ''0xDD'', nft_id = ''2'', nft_contract_standard = ''ERC721'',
       network = ''mainnet'', description = Str ''Sold'', nft_image_link = Str ''sold.png'',
       nft_name = Str ''Sold'' \<rparr>"

definition ex_custom_land :: custom_nft where
  "ex_custom_land =
     \<lparr> nft_address = ''0xBB'', nft_id = ''7'', nft_contract_standard = ''ERC1155'',
       network = ''mainnet'', description = Str ''My plot'', nft_image_link = Str ''mine.png'',
       nft_name = Str ''Mine'' \<rparr>"

text \<open>
  A user-supplied entry without image link and name, so that its metadata is looked up.
\<close>

definition ex_custom_bare :: custom_nft where
  "ex_custom_bare =
     \<lparr> nft_address = ''0xFF'', nft_id = ''3'', nft_contract_standard = ''ERC1155'',
       network = ''mainnet'', description = Str ''Bare'', nft_image_link = Undefined,
       nft_name = Null \<rparr>"

definition ex_no_customs :: "(string \<Rightarrow> custom_nft list option) option" where
  "ex_no_customs = Some (\<lambda>a. Some [])"

definition ex_customs :: "(string \<Rightarrow> custom_nft list option) option" where
  "ex_customs = Some (\<lambda>a. Some [ex_custom_owned, ex_custom_zero, ex_custom_land])"

text \<open>What the example cycle without user-supplied entries hands to the store.\<close>

definition ex_merged :: collectible_details where
  "ex_merged =
     \<lparr> contractAddress = ''0xbb'',
       tokenID = ''7'',
       options =
         \<lparr> contractName = Some (Str ''Lands''),
           contractSymbol = Some (Str ''LND''),
           contractImage = Some (Str ''logo=s240''),
           contractFallbackLogo = Some (Str ''p7.png''),
           opt_standard = Some (Str ''erc1155''),
           contractDescription = Some Null,
           opt_description = Some Null,
           opt_image = Some (Str ''os7.png''),
           opt_name = Some (Str ''OpenSea Plot 7''),
           tokenBalance = Some (Str ''3''),
           opt_contractAddress = Some (Str ''0xbb''),
           contractSupply = Some Null \<rparr> \<rparr>"



section \<open>Properties of the object model\<close>

lemma obj_get_obj_set: "obj_get (obj_set m k v) k' = (if k' = k then Some v else obj_get m k')"
  by (induction m) (auto simp: obj_get_def)

lemma obj_keys_obj_set:
  "obj_keys (obj_set m k v) = (if k \<in> set (obj_keys m) then obj_keys m else obj_keys m @ [k])"
  by (induction m) (force simp: obj_keys_def)+

lemma obj_get_None_iff: "obj_get m k = None \<longleftrightarrow> k \<notin> set (obj_keys m)"
  by (simp add: obj_get_def obj_keys_def map_of_eq_None_iff)


lemma obj_set_entries: "(k', v') \<in> set (obj_set m k v) \<Longrightarrow> (k', v') \<in> set m \<or> (k' = k \<and> v' = v)"
  by (induction m) (auto split: if_splits)

lemma obj_get_Some_entry: "obj_get m k = Some v \<Longrightarrow> (k, v) \<in> set m"
  by (simp add: obj_get_def map_of_SomeD)

text \<open>Filling an object from a list, as the reduce and the adapters' loops do.\<close>

lemma fill_keys_set:
  "set (obj_keys (fold (\<lambda>x acc. obj_set acc (key x) x) xs m)) = set (obj_keys m) \<union> key ` set xs"
  by (induction xs arbitrary: m) (auto simp: obj_keys_obj_set)


lemma fill_entries:
  "(k, v) \<in> set (fold (\<lambda>x acc. obj_set acc (key x) x) xs m)
     \<Longrightarrow> (k, v) \<in> set m \<or> (v \<in> set xs \<and> key v = k)"
proof (induction xs arbitrary: m)
  case Nil
  then show ?case by simp
next
  case (Cons x xs)
  from Cons.IH [OF Cons.prems [simplified]]
  show ?case by (auto dest: obj_set_entries)
qed


lemma obj_keys_Nil: "obj_keys [] = []"
  by (simp add: obj_keys_def)

lemma getObject_keys_set:
  "set (obj_keys (getObjectFromArrayBasedonKey xs key)) = key ` set xs"
  by (simp add: getObjectFromArrayBasedonKey_def fill_keys_set obj_keys_Nil)


lemma getObject_entries:
  "(k, v) \<in> set (getObjectFromArrayBasedonKey xs key) \<Longrightarrow> v \<in> set xs \<and> key v = k"
  using fill_entries [of k v key xs "[]"] by (simp add: getObjectFromArrayBasedonKey_def)

lemma getObject_values_keys:
  "map key (map snd (getObjectFromArrayBasedonKey xs key)) = obj_keys (getObjectFromArrayBasedonKey xs key)"
  unfolding obj_keys_def map_map
  by (rule map_cong [OF refl]) (auto dest: getObject_entries)

section \<open>Properties of the two array merges\<close>

lemma push_missing_eq:
  "push_missing oldMap newMap arr
     = arr @ map snd (filter (\<lambda>(x, v). obj_get newMap x = None) oldMap)"
  unfolding push_missing_def
  by (induction oldMap arbitrary: arr) auto

lemma merge_generic:
  "push_missing (getObjectFromArrayBasedonKey oldArray key) (getObjectFromArrayBasedonKey newArray key)
      newArray
     = newArray @ carried key oldArray newArray"
  by (simp add: push_missing_eq carried_def obj_get_None_iff getObject_keys_set)




lemma carried_subset: "set (carried key oldArray newArray) \<subseteq> set oldArray"
  by (auto simp: carried_def dest: getObject_entries)

lemma carried_has_key:
  assumes "c \<in> set oldArray" and "key c \<notin> key ` set newArray"
  shows "\<exists>c' \<in> set (carried key oldArray newArray). c' \<in> set oldArray \<and> key c' = key c"
proof -
  have "key c \<in> set (obj_keys (getObjectFromArrayBasedonKey oldArray key))"
    using assms(1) by (simp add: getObject_keys_set)
  then obtain v where v: "(key c, v) \<in> set (getObjectFromArrayBasedonKey oldArray key)"
    by (auto simp: obj_keys_def)
  then have "v \<in> set oldArray \<and> key v = key c" by (rule getObject_entries)
  moreover have "v \<in> set (carried key oldArray newArray)"
    unfolding carried_def using v assms(2) by force
  ultimately show ?thesis by blast
qed


lemma mergeCollectibleArrays_eq:
  "mergeCollectibleArrays oldArray newArray
     = (newArray @ carried collectibleIndex oldArray newArray,
        newArray @ carried collectibleIndex oldArray newArray)"
  by (simp add: mergeCollectibleArrays_def Let_def merge_generic)

lemma mergeContractArrays_eq:
  "mergeContractArrays oldArray newArray
     = (newArray @ carried con_address oldArray newArray,
        newArray @ carried con_address oldArray newArray)"
  by (simp add: mergeContractArrays_def Let_def merge_generic)

section \<open>Reconciliation with the stored arrays\<close>

text \<open>
  Collectibles and contracts are reconciled by the same code. For an entry of the
  previous array whose key (index key, respectively address) no entry of the new array
  has, the merged array holds an entry of the previous array with that key; the new
  entries come first, unchanged.
\<close>

lemma absent_entries_are_carried_over:
  assumes "c \<in> set oldCollectibles"
    and "collectibleIndex c \<notin> collectibleIndex ` set newCollectibles"
    and "k \<in> set oldContracts"
    and "con_address k \<notin> con_address ` set newContracts"
  shows "(\<exists>c' \<in> set (fst (mergeCollectibleArrays oldCollectibles newCollectibles)).
            c' \<in> set oldCollectibles \<and> collectibleIndex c' = collectibleIndex c)
       \<and> (\<exists>k' \<in> set (fst (mergeContractArrays oldContracts newContracts)).
            k' \<in> set oldContracts \<and> con_address k' = con_address k)
       \<and> take (length newCollectibles) (fst (mergeCollectibleArrays oldCollectibles newCollectibles))
            = newCollectibles
       \<and> take (length newContracts) (fst (mergeContractArrays oldContracts newContracts))
            = newContracts"
proof -
  from carried_has_key [OF assms(1,2)]
  have "\<exists>c' \<in> set (carried collectibleIndex oldCollectibles newCollectibles).
          c' \<in> set oldCollectibles \<and> collectibleIndex c' = collectibleIndex c" .
  moreover from carried_has_key [OF assms(3,4)]
  have "\<exists>k' \<in> set (carried con_address oldContracts newContracts).
          k' \<in> set oldContracts \<and> con_address k' = con_address k" .
  ultimately show ?thesis
    by (auto simp: mergeCollectibleArrays_eq mergeContractArrays_eq)
qed

section \<open>Properties of addCollectibles\<close>

lemma bind_Inr: "bind m f = Inr y \<longleftrightarrow> (\<exists>x. m = Inr x \<and> f x = Inr y)"
  by (cases m) (auto simp: bind_def)

lemma promise_all_results:
  "promise_all (map f xs) = Inr ys \<Longrightarrow> y \<in> set ys \<Longrightarrow> \<exists>x \<in> set xs. f x = Inr y"
proof (induction xs arbitrary: ys)
  case Nil
  then show ?case by simp
next
  case (Cons x xs)
  then show ?case
    by (auto split: sum.splits)
qed

lemma map_filter_set: "y \<in> set (List.map_filter f xs) \<longleftrightarrow> (\<exists>x \<in> set xs. f x = Some y)"
  by (induction xs) (auto split: option.splits)

lemma request_step_subset:
  "request_step x (t, cp, kp) = (t', cp', kp')
     \<Longrightarrow> set cp' \<subseteq> insert x (set cp) \<and> set kp' \<subseteq> insert x (set kp)"
  by (auto simp: request_step_def Let_def split: if_splits)

lemma requests_subset:
  "fold request_step xs (t, cp, kp) = (t', cp', kp')
     \<Longrightarrow> set cp' \<subseteq> set xs \<union> set cp \<and> set kp' \<subseteq> set xs \<union> set kp"
proof (induction xs arbitrary: t cp kp)
  case Nil
  then show ?case by simp
next
  case (Cons x xs)
  obtain t1 cp1 kp1 where s: "request_step x (t, cp, kp) = (t1, cp1, kp1)"
    by (cases "request_step x (t, cp, kp)") auto
  from Cons.prems have "fold request_step xs (t1, cp1, kp1) = (t', cp', kp')"
    by (simp add: s)
  from Cons.IH [OF this] request_step_subset [OF s] show ?case by auto
qed

text \<open>What a completed call leaves in the store.\<close>

lemma addCollectibles_try_result:
  assumes "addCollectibles_try en ac items detectFromApi = Inr ac'"
  obtains t contractPromises collectiblePromises contractDetails collectibleDetails where
    "fold request_step items ({}, [], []) = (t, contractPromises, collectiblePromises)"
    "promise_all (map (\<lambda>d. normalizeContractDetails en d detectFromApi) contractPromises)
       = Inr contractDetails"
    "promise_all (map (\<lambda>d. normalizeCollectibleDetails en (selectedAddress ac) d detectFromApi)
                    collectiblePromises) = Inr collectibleDetails"
    "collectibleContracts ac'
       = List.map_filter (\<lambda>x. if contract_accepted x then x else None) contractDetails
           @ carried con_address (collectibleContracts ac)
               (List.map_filter (\<lambda>x. if contract_accepted x then x else None) contractDetails)"
    "collectibles ac'
       = filter collectible_accepted collectibleDetails
           @ carried collectibleIndex (collectibles ac) (filter collectible_accepted collectibleDetails)"
    "allCollectibleContracts ac'
       = (allCollectibleContracts ac)(selectedAddress ac \<mapsto>
            (case allCollectibleContracts ac (selectedAddress ac) of None \<Rightarrow> Map.empty | Some m \<Rightarrow> m)
              (getNetworkNameFromNetworkCode en \<mapsto> collectibleContracts ac'))"
    "allCollectibles ac'
       = (allCollectibles ac)(selectedAddress ac \<mapsto>
            (case allCollectibles ac (selectedAddress ac) of None \<Rightarrow> Map.empty | Some m \<Rightarrow> m)
              (getNetworkNameFromNetworkCode en \<mapsto> collectibles ac'))"
    "selectedAddress ac' = selectedAddress ac"
proof -
  obtain t cp kp where f: "fold request_step items ({}, [], []) = (t, cp, kp)"
    by (cases "fold request_step items ({}, [], [])") auto
  from assms obtain cd kd where
    cd: "promise_all (map (\<lambda>d. normalizeContractDetails en d detectFromApi) cp) = Inr cd" and
    kd: "promise_all (map (\<lambda>d. normalizeCollectibleDetails en (selectedAddress ac) d detectFromApi) kp)
           = Inr kd" and
    ac': "ac' = ac\<lparr> allCollectibleContracts :=
                     (allCollectibleContracts ac)(selectedAddress ac \<mapsto>
                        (case allCollectibleContracts ac (selectedAddress ac) of
                           None \<Rightarrow> Map.empty | Some m \<Rightarrow> m)
                          (getNetworkNameFromNetworkCode en \<mapsto>
                             List.map_filter (\<lambda>x. if contract_accepted x then x else None) cd
                               @ carried con_address (collectibleContracts ac)
                                   (List.map_filter (\<lambda>x. if contract_accepted x then x else None) cd))),
                   collectibleContracts :=
                     List.map_filter (\<lambda>x. if contract_accepted x then x else None) cd
                       @ carried con_address (collectibleContracts ac)
                           (List.map_filter (\<lambda>x. if contract_accepted x then x else None) cd),
                   allCollectibles :=
                     (allCollectibles ac)(selectedAddress ac \<mapsto>
                        (case allCollectibles ac (selectedAddress ac) of
                           None \<Rightarrow> Map.empty | Some m \<Rightarrow> m)
                          (getNetworkNameFromNetworkCode en \<mapsto>
                             filter collectible_accepted kd
                               @ carried collectibleIndex (collectibles ac)
                                   (filter collectible_accepted kd))),
                   collectibles :=
                     filter collectible_accepted kd
                       @ carried collectibleIndex (collectibles ac) (filter collectible_accepted kd) \<rparr>"
    unfolding addCollectibles_try_def f
    by (auto simp: bind_Inr Let_def mergeContractArrays_eq mergeCollectibleArrays_eq)
  show thesis
    by (rule that [OF f cd kd]) (simp_all add: ac')
qed

lemma addCollectibles_try_scope:
  assumes "addCollectibles_try en ac items detectFromApi = Inr ac'"
  shows "scope_view (allCollectibleContracts ac') (selectedAddress ac')
           (getNetworkNameFromNetworkCode en) = collectibleContracts ac'"
    and "scope_view (allCollectibles ac') (selectedAddress ac')
           (getNetworkNameFromNetworkCode en) = collectibles ac'"
  using assms
  by (elim addCollectibles_try_result; simp add: scope_view_def)+

text \<open>
  C4: when a call of \<open>addCollectibles\<close> has completed (the body of its \<open>try\<close> has
  updated the store), the view fields \<open>collectibles\<close> and \<open>collectibleContracts\<close> are
  the entries of \<open>allCollectibles\<close> and \<open>allCollectibleContracts\<close> at the controller's
  selected address and the current network.
\<close>

theorem C4_view_is_projection_of_scope:
  assumes "addCollectibles_try en ac items detectFromApi = Inr ac'"
  shows "collectibles ac'
           = scope_view (allCollectibles ac') (selectedAddress ac') (getNetworkNameFromNetworkCode en)
       \<and> collectibleContracts ac'
           = scope_view (allCollectibleContracts ac') (selectedAddress ac')
               (getNetworkNameFromNetworkCode en)
       \<and> allCollectibles ac' (selectedAddress ac')
           \<noteq> None"
  using addCollectibles_try_scope [OF assms] assms
  by (elim addCollectibles_try_result) simp

lemma ex_erc721_entry_contract:
  "normalizeContractDetails ex_env ex_erc721_entry False
     = Inr (Some \<lparr> con_standard = Str ''erc721'', con_address = ''0xAA'', con_description = Str [],
                   con_logo = Str ''kitty-logo.png'', con_name = Str ''Kitties (ERC721)'',
                   con_symbol = Str ''KIT'' \<rparr>)"
  by (simp add: normalizeContractDetails_def ex_erc721_entry_def ex_env_def js_prop_def
      checksum_or_same_def bind_def js_or_def Let_def)

lemma ex_erc721_entry_collectible:
  "normalizeCollectibleDetails ex_env ''0xUser'' ex_erc721_entry False
     = Inr \<lparr> col_address = ''0xAA'', col_tokenId = ''1'', col_name = Str ''Kitty #1'',
             col_image = Str ''kitty.png'', col_description = Str ''A kitty'',
             col_standard = Str ''erc721'', col_tokenBalance = Str ''1'',
             collectibleIndex = ''0xAA_1'' \<rparr>"
  by (simp add: normalizeCollectibleDetails_def ex_erc721_entry_def ex_env_def js_prop_def
      checksum_or_same_def bind_def SUPPORTED_NFT_STANDARDS_has_def Let_def)

lemma ex_erc721_requests:
  "fold request_step [ex_erc721_entry] ({}, [], [])
     = ({''0xAA'', ''0xAA_1''}, [ex_erc721_entry], [ex_erc721_entry])"
  by (simp add: request_step_def ex_erc721_entry_def Let_def insert_commute)

lemma ex_erc721_added:
  "\<exists>ac'. addCollectibles_try ex_env (initStateObject ''0xUser'') [ex_erc721_entry] False = Inr ac'
     \<and> collectibles ac'
          = [\<lparr> col_address = ''0xAA'', col_tokenId = ''1'', col_name = Str ''Kitty #1'',
                col_image = Str ''kitty.png'', col_description = Str ''A kitty'',
                col_standard = Str ''erc721'', col_tokenBalance = Str ''1'',
                collectibleIndex = ''0xAA_1'' \<rparr>]
     \<and> collectibleContracts ac'
          = [\<lparr> con_standard = Str ''erc721'', con_address = ''0xAA'', con_description = Str [],
                con_logo = Str ''kitty-logo.png'', con_name = Str ''Kitties (ERC721)'',
                con_symbol = Str ''KIT'' \<rparr>]"
  unfolding addCollectibles_try_def ex_erc721_requests
  by (simp add: initStateObject_def ex_erc721_entry_contract ex_erc721_entry_collectible bind_def
      contract_accepted_def collectible_accepted_def Let_def
      mergeContractArrays_eq mergeCollectibleArrays_eq carried_def getObjectFromArrayBasedonKey_def)

theorem C4_view_is_projection_of_scope_witness:
  "case addCollectibles_try ex_env (initStateObject ''0xUser'') [ex_erc721_entry] False of
     Inl e \<Rightarrow> False
   | Inr ac' \<Rightarrow>
       collectibles ac' = scope_view (allCollectibles ac') ''0xUser'' ''mainnet''
       \<and> length (collectibles ac') = 1"
proof -
  from ex_erc721_added obtain ac' where
    e: "addCollectibles_try ex_env (initStateObject ''0xUser'') [ex_erc721_entry] False = Inr ac'"
    and n: "length (collectibles ac') = 1"
    by auto
  have s: "selectedAddress ac' = ''0xUser''"
    using e by (elim addCollectibles_try_result) (simp add: initStateObject_def)
  have net: "getNetworkNameFromNetworkCode ex_env = ''mainnet''" by (simp add: ex_env_def)
  from C4_view_is_projection_of_scope [OF e]
  have "collectibles ac' = scope_view (allCollectibles ac') ''0xUser'' ''mainnet''"
    by (simp add: s net)
  with n show ?thesis by (simp add: e)
qed

text \<open>
  C6: after a completed call of \<open>addCollectibles\<close>, every contract in the stored list
  of the scope was in the stored list before the call, or has a truthy name and a
  truthy symbol and is what \<open>_normalizeContractDetails\<close> returned for one of the
  entries of the call. A normalized contract whose name or symbol is empty or missing
  is therefore not added.
\<close>

theorem C6_contract_added_only_with_name_and_symbol:
  assumes "addCollectibles_try en ac items detectFromApi = Inr ac'"
    and "c \<in> set (scope_view (allCollectibleContracts ac') (selectedAddress ac')
                    (getNetworkNameFromNetworkCode en))"
  shows "c \<in> set (collectibleContracts ac)
       \<or> (truthy (con_name c) \<and> truthy (con_symbol c)
           \<and> (\<exists>x \<in> set items. normalizeContractDetails en x detectFromApi = Inr (Some c)))"
proof -
  let ?new = "\<lambda>cd. List.map_filter (\<lambda>x. if contract_accepted x then x else None) cd"
  from assms(1) obtain t cp kp cd where
    f: "fold request_step items ({}, [], []) = (t, cp, kp)" and
    cd: "promise_all (map (\<lambda>d. normalizeContractDetails en d detectFromApi) cp) = Inr cd" and
    view: "collectibleContracts ac' = ?new cd @ carried con_address (collectibleContracts ac) (?new cd)"
    by (elim addCollectibles_try_result)
  have "c \<in> set (collectibleContracts ac')"
    using assms(2) addCollectibles_try_scope [OF assms(1)] by simp
  then consider (old) "c \<in> set (carried con_address (collectibleContracts ac) (?new cd))"
    | (new) "c \<in> set (?new cd)"
    unfolding view by auto
  then show ?thesis
  proof cases
    case old
    then show ?thesis using carried_subset by fastforce
  next
    case new
    then have acc: "contract_accepted (Some c)" and mem: "Some c \<in> set cd"
      by (auto simp: map_filter_set split: if_splits)
    from promise_all_results [OF cd mem] obtain x where
      x: "x \<in> set cp" "normalizeContractDetails en x detectFromApi = Inr (Some c)"
      by blast
    from requests_subset [OF f] x(1) have "x \<in> set items" by auto
    with x(2) acc show ?thesis by (auto simp: contract_accepted_def)
  qed
qed

theorem C6_contract_added_only_with_name_and_symbol_witness:
  "case addCollectibles_try ex_env (initStateObject ''0xUser'') [ex_erc721_entry] False of
     Inl e \<Rightarrow> False
   | Inr ac' \<Rightarrow>
       list_all (\<lambda>c. truthy (con_name c) \<and> truthy (con_symbol c))
         (scope_view (allCollectibleContracts ac') (selectedAddress ac') ''mainnet'')
       \<and> scope_view (allCollectibleContracts ac') (selectedAddress ac') ''mainnet'' \<noteq> []"
proof -
  from ex_erc721_added obtain ac' where
    e: "addCollectibles_try ex_env (initStateObject ''0xUser'') [ex_erc721_entry] False = Inr ac'"
    and n: "collectibleContracts ac' \<noteq> []"
    by auto
  have net: "getNetworkNameFromNetworkCode ex_env = ''mainnet''" by (simp add: ex_env_def)
  have old: "collectibleContracts (initStateObject ''0xUser'') = []"
    by (simp add: initStateObject_def)
  have "truthy (con_name c) \<and> truthy (con_symbol c)"
    if "c \<in> set (scope_view (allCollectibleContracts ac') (selectedAddress ac') ''mainnet'')" for c
    using C6_contract_added_only_with_name_and_symbol [OF e, of c] that by (simp add: net old)
  moreover have "scope_view (allCollectibleContracts ac') (selectedAddress ac') ''mainnet'' \<noteq> []"
    using addCollectibles_try_scope [OF e] n by (simp add: net)
  ultimately show ?thesis by (simp add: e list_all_iff)
qed

text \<open>
  The two branches of the balance fallback that assign: a normalized ERC721 collectible
  always has a truthy balance, and a normalized ERC1155 collectible without a truthy
  balance has the balance \<open>null\<close> when the chain lookup fails.
\<close>

lemma normalize_erc721_balance:
  assumes "normalizeCollectibleDetails en u d detectFromApi = Inr n"
    and "col_standard n = Str (CONTRACT_TYPE_ERC721 en)"
  shows "truthy (col_tokenBalance n)"
  using assms
  by (auto simp: normalizeCollectibleDetails_def bind_Inr Let_def
      split: if_splits option.splits sum.splits)

lemma normalize_erc1155_failed_lookup:
  assumes "normalizeCollectibleDetails en u d detectFromApi = Inr n"
    and "col_standard n = Str (CONTRACT_TYPE_ERC1155 en)"
    and "CONTRACT_TYPE_ERC1155 en \<noteq> CONTRACT_TYPE_ERC721 en"
    and "\<not> truthy (col_tokenBalance n)"
    and "getErc1155Balance en (col_address n) u (col_tokenId n) = Inl e"
  shows "col_tokenBalance n = Null"
  using assms
  by (auto simp: normalizeCollectibleDetails_def bind_Inr Let_def
      split: if_splits option.splits sum.splits)

text \<open>
  C7, evaluated on the code: the ERC1155 entry \<open>ex_erc1155_entry\<close> comes with name,
  image and standard but without a balance. The chain lookup answers 5, yet the
  normalized collectible has no balance (\<open>Undefined\<close>), and \<open>addCollectibles\<close> then
  leaves the collectible out of the store.
\<close>

theorem C7_erc1155_balance_is_not_assigned:
  "getErc1155Balance ex_env ''0xCC'' ''0xUser'' ''9'' = Inr (Num 5)
   \<and> normalizeCollectibleDetails ex_env ''0xUser'' ex_erc1155_entry False
       = Inr \<lparr> col_address = ''0xCC'', col_tokenId = ''9'', col_name = Str ''Plot #9'',
               col_image = Str ''plot9.png'', col_description = Str ''Plot 9'',
               col_standard = Str ''erc1155'', col_tokenBalance = Undefined,
               collectibleIndex = ''0xCC_9'' \<rparr>
   \<and> collectibles (addCollectibles ex_env (initStateObject ''0xUser'') [ex_erc1155_entry] False) = []"
proof -
  have bal: "getErc1155Balance ex_env ''0xCC'' ''0xUser'' ''9'' = Inr (Num 5)"
    by (simp add: ex_env_def)
  have norm: "normalizeCollectibleDetails ex_env ''0xUser'' ex_erc1155_entry False
       = Inr \<lparr> col_address = ''0xCC'', col_tokenId = ''9'', col_name = Str ''Plot #9'',
               col_image = Str ''plot9.png'', col_description = Str ''Plot 9'',
               col_standard = Str ''erc1155'', col_tokenBalance = Undefined,
               collectibleIndex = ''0xCC_9'' \<rparr>"
    by (simp add: normalizeCollectibleDetails_def ex_erc1155_entry_def ex_env_def js_prop_def
        checksum_or_same_def bind_def SUPPORTED_NFT_STANDARDS_has_def Let_def)
  have con: "normalizeContractDetails ex_env ex_erc1155_entry False
       = Inr (Some \<lparr> con_standard = Str ''erc1155'', con_address = ''0xCC'',
                     con_description = Str ''Plots of land'', con_logo = Str ''land-logo.png'',
                     con_name = Str ''Lands'', con_symbol = Str ''LND'' \<rparr>)"
    by (simp add: normalizeContractDetails_def ex_erc1155_entry_def ex_env_def js_prop_def
        checksum_or_same_def bind_def js_or_def Let_def)
  have req: "fold request_step [ex_erc1155_entry] ({}, [], [])
               = ({''0xCC'', ''0xCC_9''}, [ex_erc1155_entry], [ex_erc1155_entry])"
    by (simp add: request_step_def ex_erc1155_entry_def Let_def insert_commute)
  have "collectibles (addCollectibles ex_env (initStateObject ''0xUser'') [ex_erc1155_entry] False) = []"
    unfolding addCollectibles_def addCollectibles_try_def req
    by (simp add: initStateObject_def con norm bind_def contract_accepted_def
        collectible_accepted_def Let_def mergeContractArrays_eq mergeCollectibleArrays_eq
        carried_def getObjectFromArrayBasedonKey_def)
  with bal norm show ?thesis by simp
qed

theorem C7_erc1155_balance_is_not_assigned_witness:
  "col_tokenBalance
     (case normalizeCollectibleDetails ex_env ''0xUser'' ex_erc1155_entry False of
        Inr normalized \<Rightarrow> normalized) \<noteq> Num 5
   \<and> length (collectibles (addCollectibles ex_env (initStateObject ''0xUser'') [ex_erc1155_entry] False))
       = 0"
  using C7_erc1155_balance_is_not_assigned by simp

text \<open>
  C3, evaluated on the code: a first call of \<open>addCollectibles\<close> stores the collectible
  with index key \<open>0xAA_1\<close>. A second call whose entries no longer include it (here:
  none) leaves the collectible in the view and in the array stored for the scope, and
  the merge of the old array \<open>[ex_old_collectible]\<close> with a new array that has another
  key returns the new entry followed by the old one, exactly as the merge of contracts
  does. The claim says the collectible is dropped, as the doc comment of \<open>detectCollectibles\<close> does (removing not owned
  collectibles).
\<close>

theorem C3_unreported_collectible_stays_stored:
  "collectibleIndex ex_old_collectible \<noteq> collectibleIndex ex_new_collectible
   \<and> fst (mergeCollectibleArrays [ex_old_collectible] [ex_new_collectible])
       = [ex_new_collectible, ex_old_collectible]
   \<and> fst (mergeContractArrays [ex_old_contract] [ex_new_contract])
       = [ex_new_contract, ex_old_contract]
   \<and> map collectibleIndex
         (collectibles (addCollectibles ex_env (initStateObject ''0xUser'') [ex_erc721_entry] False))
       = [''0xAA_1'']
   \<and> map collectibleIndex
         (collectibles
            (addCollectibles ex_env
               (addCollectibles ex_env (initStateObject ''0xUser'') [ex_erc721_entry] False) [] False))
       = [''0xAA_1'']
   \<and> map collectibleIndex
         (scope_view
            (allCollectibles
               (addCollectibles ex_env
                  (addCollectibles ex_env (initStateObject ''0xUser'') [ex_erc721_entry] False) [] False))
            ''0xUser'' ''mainnet'')
       = [''0xAA_1'']"
  by code_simp

theorem C3_unreported_collectible_stays_stored_witness:
  "length
     (collectibles
        (addCollectibles ex_env
           (addCollectibles ex_env (initStateObject ''0xUser'') [ex_erc721_entry] False) [] False))
     = 1"
proof -
  from C3_unreported_collectible_stays_stored
  have "length (map collectibleIndex
          (collectibles
             (addCollectibles ex_env
                (addCollectibles ex_env (initStateObject ''0xUser'') [ex_erc721_entry] False) [] False)))
          = length [''0xAA_1'']"
    by simp
  then show ?thesis by simp
qed






section \<open>Properties of the Covalent adapter\<close>

lemma covalent_tokens_length:
  "length (covalent_tokens den p item cn fb j nfts) = length nfts"
  by (induction nfts arbitrary: cn fb j) (simp_all add: Let_def)

lemma covalent_tokens_label:
  "i < length nfts \<Longrightarrow>
     contractName (options (covalent_tokens den p item cn fb j nfts ! i))
       = Some (Str (js_to_string cn @ concat (map (label_suffix p) (take (Suc i) nfts))))"
proof (induction nfts arbitrary: cn fb j i)
  case Nil
  then show ?case by simp
next
  case (Cons nft rest)
  show ?case
  proof (cases i)
    case 0
    then show ?thesis by (simp add: Let_def label_suffix_def)
  next
    case (Suc i')
    with Cons.prems have "i' < length rest" by simp
    from Cons.IH [OF this] show ?thesis
      using Suc by (simp add: Let_def label_suffix_def js_to_string_def)
  qed
qed

text \<open>
  C10: for a Covalent record of type \<open>nft\<close> with tokens \<open>nfts\<close>, the \<open>contractName\<close> of
  the entry made for token \<open>i\<close> (counted from 0) is the record's contract name followed
  by the suffixes of the tokens \<open>0\<close> to \<open>i\<close>, that is by \<open>i + 1\<close> suffixes, each
  \<open>(prefix721)\<close> or \<open>(prefix1155)\<close> after a blank. Only the first token's entry carries
  the name with a single suffix.
\<close>

theorem C10_contract_label_accumulates:
  assumes "item_type item = Str ''nft''"
    and "nft_data item = Some nfts"
    and "i < length nfts"
  shows "contractName (options (covalent_item_collectibles den protocolPrefix item ! i))
           = Some (Str (js_to_string (contract_name item)
                          @ concat (map (label_suffix protocolPrefix) (take (Suc i) nfts))))
       \<and> length (map (label_suffix protocolPrefix) (take (Suc i) nfts)) = i + 1
       \<and> length (covalent_item_collectibles den protocolPrefix item) = length nfts"
  using assms
  by (simp add: covalent_item_collectibles_def covalent_tokens_label covalent_tokens_length)

theorem C10_contract_label_accumulates_witness:
  "contractName (options (covalent_item_collectibles ex_den ''ERC'' ex_covalent_item ! 1))
     = Some (Str ''Lands (ERC1155) (ERC1155)'')"
proof -
  let ?t7 = "\<lparr> token_id = ''7'', token_balance = Str ''3'',
                external_data = Some \<lparr> ext_name = Str ''Plot 7'', ext_description = Str ''Seven'',
                                       ext_image = Str ''p7.png'' \<rparr>,
                supports_erc = [''erc20'', ''erc1155''] \<rparr>"
  let ?t8 = "\<lparr> token_id = ''8'', token_balance = Str ''1'', external_data = None,
                supports_erc = [''erc20'', ''erc1155''] \<rparr>"
  have a: "item_type ex_covalent_item = Str ''nft''" by (simp add: ex_covalent_item_def)
  have b: "nft_data ex_covalent_item = Some [?t7, ?t8]" by (simp add: ex_covalent_item_def)
  have c: "1 < length [?t7, ?t8]" by simp
  have n: "js_to_string (contract_name ex_covalent_item) = ''Lands''"
    by (simp add: ex_covalent_item_def js_to_string_def)
  from C10_contract_label_accumulates [OF a b c, of ex_den "''ERC''"] show ?thesis
    by (simp add: n label_suffix_def)
qed

section \<open>Properties of the user-supplied entries\<close>

lemma resolve_custom_failing:
  assumes "fetchNftBalance den (nft_address x) (nft_id x) userAddress (nft_contract_standard x)
             = Inr (Num 0)
         \<or> (\<exists>e. fetchNftBalance den (nft_address x) (nft_id x) userAddress (nft_contract_standard x)
                  = Inl e)
         \<or> ((\<not> truthy (description x) \<or> \<not> truthy (nft_image_link x) \<or> \<not> truthy (nft_name x))
             \<and> (\<exists>e. handler_getNftMetadata den (nft_address x) (nft_id x) userAddress
                       (nft_contract_standard x) = Inl e))"
  shows "resolve_custom den userAddress x = None"
  using assms by (auto simp: resolve_custom_def split: sum.splits)

lemma resolve_custom_balance:
  "resolve_custom den userAddress x = Some c \<Longrightarrow> tokenBalance (options c) \<noteq> Some (Num 0)"
  by (auto simp: resolve_custom_def custom_collectible_def split: sum.splits if_splits)

lemma resolve_custom_complete:
  assumes "fetchNftBalance den (nft_address y) (nft_id y) userAddress (nft_contract_standard y) = Inr b"
    and "b \<noteq> Num 0"
    and "truthy (description y)" and "truthy (nft_image_link y)" and "truthy (nft_name y)"
  shows "resolve_custom den userAddress y
           = Some (custom_collectible y b (description y) (nft_image_link y) (nft_name y))"
  using assms by (simp add: resolve_custom_def)

lemma resolve_custom_metadata:
  assumes "fetchNftBalance den (nft_address y) (nft_id y) userAddress (nft_contract_standard y) = Inr b"
    and "b \<noteq> Num 0"
    and "\<not> truthy (description y) \<or> \<not> truthy (nft_image_link y) \<or> \<not> truthy (nft_name y)"
    and "handler_getNftMetadata den (nft_address y) (nft_id y) userAddress (nft_contract_standard y)
           = Inr md"
  shows "resolve_custom den userAddress y
           = Some (custom_collectible y b (decription md) (nftImageLink md) (nftName md))"
  using assms by (auto simp: resolve_custom_def)

lemma collectibles_map_keys: "set (obj_keys (collectibles_map cs)) = index_key ` set cs"
  by (simp add: collectibles_map_def fill_keys_set obj_keys_Nil)

lemma map_filter_drop:
  "f x = None \<Longrightarrow> List.map_filter f (xs @ x # ys) = List.map_filter f (xs @ ys)"
  by (induction xs) (auto split: option.splits)

lemma collectibles_map_entries:
  "(k, v) \<in> set (collectibles_map cs) \<Longrightarrow> v \<in> set cs \<and> index_key v = k"
  using fill_entries [of k v index_key cs "[]"] by (simp add: collectibles_map_def)

lemma getCustomNfts_resolved:
  assumes "getCustomNfts den userAddress (Some nfts) = Inr (toks, m)"
    and "userAddress \<noteq> []"
    and "y \<in> set nfts" and "network y = networkName den"
    and "resolve_custom den userAddress y = Some c"
  shows "c \<in> set toks"
  using assms by (auto simp: getCustomNfts_def Let_def map_filter_set)

lemma getCustomNfts_result:
  assumes "getCustomNfts den userAddress customNfts = Inr (toks, m)"
  shows "m = collectibles_map toks"
    and "\<forall>c \<in> set toks. tokenBalance (options c) \<noteq> Some (Num 0)"
proof -
  show "m = collectibles_map toks"
    using assms
    by (auto simp: getCustomNfts_def collectibles_map_def Let_def split: if_splits option.splits)
  show "\<forall>c \<in> set toks. tokenBalance (options c) \<noteq> Some (Num 0)"
    using assms
    by (auto simp: getCustomNfts_def Let_def map_filter_set
        split: if_splits option.splits dest: resolve_custom_balance)
qed

text \<open>
  C5: in a batch of user-supplied entries, let \<open>x\<close> be an entry whose balance lookup
  answers 0, or whose balance lookup fails, or whose metadata lookup fails when some of
  description, image link and name is missing. Then \<open>x\<close> is left out and changes nothing
  else: the call returns the same token list and the same collectibles map as for the
  batch without \<open>x\<close>, and no entry of the list or the map has balance 0. Every other
  entry \<open>y\<close> of the active network is still processed: when its balance lookup answers
  \<open>b\<close>, not 0, the list holds the entry built for \<open>y\<close> with balance \<open>b\<close> (from the
  fields of \<open>y\<close> when all three are present, from the fetched metadata otherwise) and
  the map has its index key; every entry of the map is an entry of the list, stored
  under its own index key.
\<close>

theorem C5_failing_custom_entry_is_omitted:
  assumes "userAddress \<noteq> []"
    and "fetchNftBalance den (nft_address x) (nft_id x) userAddress (nft_contract_standard x)
             = Inr (Num 0)
         \<or> (\<exists>e. fetchNftBalance den (nft_address x) (nft_id x) userAddress (nft_contract_standard x)
                  = Inl e)
         \<or> ((\<not> truthy (description x) \<or> \<not> truthy (nft_image_link x) \<or> \<not> truthy (nft_name x))
             \<and> (\<exists>e. handler_getNftMetadata den (nft_address x) (nft_id x) userAddress
                       (nft_contract_standard x) = Inl e))"
  shows "getCustomNfts den userAddress (Some (xs @ x # ys))
           = getCustomNfts den userAddress (Some (xs @ ys))
       \<and> (\<exists>toks m. getCustomNfts den userAddress (Some (xs @ x # ys)) = Inr (toks, m)
             \<and> (\<forall>c \<in> set toks. tokenBalance (options c) \<noteq> Some (Num 0))
             \<and> (\<forall>k c. obj_get m k = Some c
                   \<longrightarrow> c \<in> set toks \<and> index_key c = k \<and> tokenBalance (options c) \<noteq> Some (Num 0))
             \<and> (\<forall>y \<in> set (xs @ ys). \<forall>b.
                   network y = networkName den
                   \<and> fetchNftBalance den (nft_address y) (nft_id y) userAddress (nft_contract_standard y)
                       = Inr b
                   \<and> b \<noteq> Num 0
                   \<longrightarrow> (truthy (description y) \<and> truthy (nft_image_link y) \<and> truthy (nft_name y)
                         \<longrightarrow> custom_collectible y b (description y) (nft_image_link y) (nft_name y)
                               \<in> set toks
                             \<and> index_key (custom_collectible y b (description y) (nft_image_link y)
                                            (nft_name y))
                                 \<in> set (obj_keys m))
                     \<and> (\<forall>md. (\<not> truthy (description y) \<or> \<not> truthy (nft_image_link y)
                                \<or> \<not> truthy (nft_name y))
                              \<and> handler_getNftMetadata den (nft_address y) (nft_id y) userAddress
                                  (nft_contract_standard y) = Inr md
                              \<longrightarrow> custom_collectible y b (decription md) (nftImageLink md) (nftName md)
                                    \<in> set toks
                                  \<and> index_key (custom_collectible y b (decription md)
                                                 (nftImageLink md) (nftName md))
                                      \<in> set (obj_keys m))))"
proof -
  have none: "resolve_custom den userAddress x = None"
    by (rule resolve_custom_failing [OF assms(2)])
  have same: "getCustomNfts den userAddress (Some (xs @ x # ys))
                = getCustomNfts den userAddress (Some (xs @ ys))"
  proof (cases "network x = networkName den")
    case True
    have d: "List.map_filter (resolve_custom den userAddress) (as @ x # bs)
               = List.map_filter (resolve_custom den userAddress) (as @ bs)" for as bs
      using map_filter_drop [of "resolve_custom den userAddress" x as bs] none by simp
    from True show ?thesis
      using assms(1) by (simp add: getCustomNfts_def Let_def d)
  next
    case False
    then show ?thesis
      using assms(1) by (simp add: getCustomNfts_def Let_def)
  qed
  obtain toks m where r: "getCustomNfts den userAddress (Some (xs @ x # ys)) = Inr (toks, m)"
    using assms(1) by (simp add: getCustomNfts_def Let_def)
  from getCustomNfts_result [OF r]
  have m: "m = collectibles_map toks"
    and nz: "\<forall>c \<in> set toks. tokenBalance (options c) \<noteq> Some (Num 0)"
    by simp_all
  have keys: "set (obj_keys m) = index_key ` set toks"
    unfolding m by (rule collectibles_map_keys)
  have entries: "c \<in> set toks \<and> index_key c = k \<and> tokenBalance (options c) \<noteq> Some (Num 0)"
    if "obj_get m k = Some c" for k c
  proof -
    from that have "(k, c) \<in> set (collectibles_map toks)"
      unfolding m by (rule obj_get_Some_entry)
    then have "c \<in> set toks \<and> index_key c = k" by (rule collectibles_map_entries)
    with nz show ?thesis by blast
  qed
  have kept: "c \<in> set toks \<and> index_key c \<in> set (obj_keys m)"
    if "y \<in> set (xs @ ys)" "network y = networkName den"
      "resolve_custom den userAddress y = Some c" for y c
  proof -
    from that(1) have "y \<in> set (xs @ x # ys)" by auto
    from getCustomNfts_resolved [OF r assms(1) this that(2,3)] have "c \<in> set toks" .
    then show ?thesis by (simp add: keys)
  qed
  have others: "(truthy (description y) \<and> truthy (nft_image_link y) \<and> truthy (nft_name y)
                   \<longrightarrow> custom_collectible y b (description y) (nft_image_link y) (nft_name y)
                         \<in> set toks
                       \<and> index_key (custom_collectible y b (description y) (nft_image_link y)
                                      (nft_name y))
                           \<in> set (obj_keys m))
               \<and> (\<forall>md. (\<not> truthy (description y) \<or> \<not> truthy (nft_image_link y)
                          \<or> \<not> truthy (nft_name y))
                        \<and> handler_getNftMetadata den (nft_address y) (nft_id y) userAddress
                            (nft_contract_standard y) = Inr md
                        \<longrightarrow> custom_collectible y b (decription md) (nftImageLink md) (nftName md)
                              \<in> set toks
                            \<and> index_key (custom_collectible y b (decription md)
                                           (nftImageLink md) (nftName md))
                                \<in> set (obj_keys m))"
    if y: "y \<in> set (xs @ ys)" "network y = networkName den"
      and b: "fetchNftBalance den (nft_address y) (nft_id y) userAddress (nft_contract_standard y)
                = Inr b" "b \<noteq> Num 0"
    for y b
  proof (intro conjI impI allI)
    assume t: "truthy (description y) \<and> truthy (nft_image_link y) \<and> truthy (nft_name y)"
    from t have "resolve_custom den userAddress y
                   = Some (custom_collectible y b (description y) (nft_image_link y) (nft_name y))"
      using resolve_custom_complete [OF b] by simp
    from kept [OF y this]
    show "custom_collectible y b (description y) (nft_image_link y) (nft_name y) \<in> set toks"
      and "index_key (custom_collectible y b (description y) (nft_image_link y) (nft_name y))
             \<in> set (obj_keys m)"
      by simp_all
  next
    fix md
    assume h: "(\<not> truthy (description y) \<or> \<not> truthy (nft_image_link y) \<or> \<not> truthy (nft_name y))
               \<and> handler_getNftMetadata den (nft_address y) (nft_id y) userAddress
                   (nft_contract_standard y) = Inr md"
    from h have "resolve_custom den userAddress y
                   = Some (custom_collectible y b (decription md) (nftImageLink md) (nftName md))"
      using resolve_custom_metadata [OF b] by blast
    from kept [OF y this]
    show "custom_collectible y b (decription md) (nftImageLink md) (nftName md) \<in> set toks"
      and "index_key (custom_collectible y b (decription md) (nftImageLink md) (nftName md))
             \<in> set (obj_keys m)"
      by simp_all
  qed
  show ?thesis
  proof (intro conjI exI [of _ toks] exI [of _ m] ballI allI impI)
    show "getCustomNfts den userAddress (Some (xs @ x # ys))
            = getCustomNfts den userAddress (Some (xs @ ys))" by (rule same)
    show "getCustomNfts den userAddress (Some (xs @ x # ys)) = Inr (toks, m)" by (rule r)
  qed (use nz entries others in \<open>blast+\<close>)
qed

text \<open>
  On the example: the zero-balance entry is left out between an entry with all fields
  and an entry whose image link and name come from the metadata lookup.
\<close>

theorem C5_failing_custom_entry_is_omitted_witness:
  "getCustomNfts ex_den ''0xUser'' (Some ([ex_custom_owned] @ ex_custom_zero # [ex_custom_bare]))
     = getCustomNfts ex_den ''0xUser'' (Some ([ex_custom_owned] @ [ex_custom_bare]))
   \<and> getCustomNfts ex_den ''0xUser'' (Some [ex_custom_owned, ex_custom_zero, ex_custom_bare])
       = Inr ([\<lparr> contractAddress = ''0xAA'', tokenID = ''1'',
                  options =
                    \<lparr> contractName = Some (Str ''Kitty''), contractSymbol = Some (Str ''Kitty''),
                      contractImage = Some (Str ''kitty.png''),
                      contractFallbackLogo = Some (Str ''kitty.png''),
                      opt_standard = Some (Str ''erc721''),
                      contractDescription = Some (Str ''A kitty''),
                      opt_description = Some (Str ''A kitty''),
                      opt_image = Some (Str ''kitty.png''), opt_name = Some (Str ''Kitty#1''),
                      tokenBalance = Some (Num 1), opt_contractAddress = None,
                      contractSupply = None \<rparr> \<rparr>,
                \<lparr> contractAddress = ''0xFF'', tokenID = ''3'',
                  options =
                    \<lparr> contractName = Some (Str ''Custom''), contractSymbol = Some (Str ''Custom''),
                      contractImage = Some (Str ''custom.png''),
                      contractFallbackLogo = Some (Str ''custom.png''),
                      opt_standard = Some (Str ''erc1155''),
                      contractDescription = Some Undefined,
                      opt_description = Some Undefined,
                      opt_image = Some (Str ''custom.png''), opt_name = Some (Str ''Custom#3''),
                      tokenBalance = Some (Num 1), opt_contractAddress = None,
                      contractSupply = None \<rparr> \<rparr>],
               [(''0xaa_1'',
                 \<lparr> contractAddress = ''0xAA'', tokenID = ''1'',
                   options =
                     \<lparr> contractName = Some (Str ''Kitty''), contractSymbol = Some (Str ''Kitty''),
                       contractImage = Some (Str ''kitty.png''),
                       contractFallbackLogo = Some (Str ''kitty.png''),
                       opt_standard = Some (Str ''erc721''),
                       contractDescription = Some (Str ''A kitty''),
                       opt_description = Some (Str ''A kitty''),
                       opt_image = Some (Str ''kitty.png''), opt_name = Some (Str ''Kitty#1''),
                       tokenBalance = Some (Num 1), opt_contractAddress = None,
                       contractSupply = None \<rparr> \<rparr>),
                (''0xff_3'',
                 \<lparr> contractAddress = ''0xFF'', tokenID = ''3'',
                   options =
                     \<lparr> contractName = Some (Str ''Custom''), contractSymbol = Some (Str ''Custom''),
                       contractImage = Some (Str ''custom.png''),
                       contractFallbackLogo = Some (Str ''custom.png''),
                       opt_standard = Some (Str ''erc1155''),
                       contractDescription = Some Undefined,
                       opt_description = Some Undefined,
                       opt_image = Some (Str ''custom.png''), opt_name = Some (Str ''Custom#3''),
                       tokenBalance = Some (Num 1), opt_contractAddress = None,
                       contractSupply = None \<rparr> \<rparr>)])"
proof -
  have u: "''0xUser'' \<noteq> []" by simp
  have z: "fetchNftBalance ex_den (nft_address ex_custom_zero) (nft_id ex_custom_zero) ''0xUser''
             (nft_contract_standard ex_custom_zero) = Inr (Num 0)"
    by (simp add: ex_den_def ex_custom_zero_def)
  from C5_failing_custom_entry_is_omitted [of "''0xUser''" ex_den ex_custom_zero
      "[ex_custom_owned]" "[ex_custom_bare]", OF u disjI1, OF z]
  have same: "getCustomNfts ex_den ''0xUser'' (Some ([ex_custom_owned] @ ex_custom_zero # [ex_custom_bare]))
                = getCustomNfts ex_den ''0xUser'' (Some ([ex_custom_owned] @ [ex_custom_bare]))"
    by blast
  let ?owned = "\<lparr> contractAddress = ''0xAA'', tokenID = ''1'',
                   options =
                     \<lparr> contractName = Some (Str ''Kitty''), contractSymbol = Some (Str ''Kitty''),
                       contractImage = Some (Str ''kitty.png''),
                       contractFallbackLogo = Some (Str ''kitty.png''),
                       opt_standard = Some (Str ''erc721''),
                       contractDescription = Some (Str ''A kitty''),
                       opt_description = Some (Str ''A kitty''),
                       opt_image = Some (Str ''kitty.png''), opt_name = Some (Str ''Kitty#1''),
                       tokenBalance = Some (Num 1), opt_contractAddress = None,
                       contractSupply = None \<rparr> \<rparr>"
  let ?bare = "\<lparr> contractAddress = ''0xFF'', tokenID = ''3'',
                   options =
                     \<lparr> contractName = Some (Str ''Custom''), contractSymbol = Some (Str ''Custom''),
                       contractImage = Some (Str ''custom.png''),
                       contractFallbackLogo = Some (Str ''custom.png''),
                       opt_standard = Some (Str ''erc1155''),
                       contractDescription = Some Undefined,
                       opt_description = Some Undefined,
                       opt_image = Some (Str ''custom.png''), opt_name = Some (Str ''Custom#3''),
                       tokenBalance = Some (Num 1), opt_contractAddress = None,
                       contractSupply = None \<rparr> \<rparr>"
  have val: "getCustomNfts ex_den ''0xUser'' (Some [ex_custom_owned, ex_custom_bare])
               = Inr ([?owned, ?bare], [(''0xaa_1'', ?owned), (''0xff_3'', ?bare)])"
    by code_simp
  from same val show ?thesis by simp
qed

section \<open>Properties of the merge of the sources\<close>

lemma index_key_deepmerge: "index_key (deepmerge t s) = index_key s"
  by (simp add: index_key_def deepmerge_def)

lemma push_opensea_eq:
  "push_opensea C V Om arr
     = arr @ map (\<lambda>(x, oc). case obj_get V x of Some v \<Rightarrow> deepmerge v oc | None \<Rightarrow> oc)
               (filter (\<lambda>(x, oc). obj_get C x = None) Om)"
  unfolding push_opensea_def
  by (induction Om arbitrary: arr) (auto split: option.splits)

lemma push_covalent_eq:
  "push_covalent C V arr = arr @ map snd (filter (\<lambda>(x, v). obj_get C x = None) V)"
  unfolding push_covalent_def
  by (induction V arbitrary: arr) auto

lemma covalent_map_entries:
  "(k, v) \<in> set (snd (detectCollectiblesFromCovalent den a n)) \<Longrightarrow> index_key v = k"
  by (auto simp: detectCollectiblesFromCovalent_def Let_def split: if_splits
      dest: collectibles_map_entries)

lemma opensea_map_entries:
  "(k, v) \<in> set (snd (detectCollectiblesFromOpensea den a))
     \<Longrightarrow> index_key v = k \<and> (\<exists>asset. opensea_collectible den asset = Some v)"
  by (auto simp: detectCollectiblesFromOpensea_def Let_def map_filter_set split: if_splits
      dest!: collectibles_map_entries)

text \<open>The array of a cycle: the user's entries, then what the provider loop pushed.\<close>

lemma detectCollectibles_result:
  assumes "detectCollectibles den (Some getState) a = Inr finalArr"
    and "getCustomNfts den a (getState a) = Inr (customNftArr, customCollectiblesMap)"
  shows "finalArr = customNftArr @
           (if isMainnet den \<or> isMatic den then
              (if obj_keys (snd (detectCollectiblesFromOpensea den a)) \<noteq> [] then
                 map (\<lambda>(x, oc). case obj_get (snd (detectCollectiblesFromCovalent den a (networkName den))) x of
                                 Some v \<Rightarrow> deepmerge v oc | None \<Rightarrow> oc)
                   (filter (\<lambda>(x, oc). obj_get customCollectiblesMap x = None)
                      (snd (detectCollectiblesFromOpensea den a)))
               else
                 map snd (filter (\<lambda>(x, v). obj_get customCollectiblesMap x = None)
                            (snd (detectCollectiblesFromCovalent den a (networkName den)))))
            else
              map snd (filter (\<lambda>(x, v). obj_get customCollectiblesMap x = None)
                         (snd (detectCollectiblesFromCovalent den a (networkName den)))))"
  using assms
  by (auto simp: detectCollectibles_def bind_def Let_def push_opensea_eq push_covalent_eq)

lemma detectCollectibles_rest:
  assumes "detectCollectibles den (Some getState) a = Inr finalArr"
    and "getCustomNfts den a (getState a) = Inr (customNftArr, customCollectiblesMap)"
  obtains rest where "finalArr = customNftArr @ rest"
    and "\<forall>e \<in> set rest. obj_get customCollectiblesMap (index_key e) = None"
proof -
  let ?V = "snd (detectCollectiblesFromCovalent den a (networkName den))"
  let ?Om = "snd (detectCollectiblesFromOpensea den a)"
  let ?C = customCollectiblesMap
  have cov: "\<forall>e \<in> set (map snd (filter (\<lambda>(x, v). obj_get ?C x = None) ?V)).
               obj_get ?C (index_key e) = None"
    by (auto dest: covalent_map_entries)
  have os: "\<forall>e \<in> set (map (\<lambda>(x, oc). case obj_get ?V x of Some v \<Rightarrow> deepmerge v oc | None \<Rightarrow> oc)
                          (filter (\<lambda>(x, oc). obj_get ?C x = None) ?Om)).
              obj_get ?C (index_key e) = None"
    by (auto simp: index_key_deepmerge split: option.splits dest: opensea_map_entries)
  show thesis
    by (rule that [OF detectCollectibles_result [OF assms]]) (use cov os in presburger)
qed

text \<open>
  C1: in a detection cycle that reaches the store, let \<open>K\<close> be a key of the map of
  user-supplied entries and \<open>c\<close> its entry. Then \<open>c\<close> is in the array handed to the
  store, and the entries of that array with index key \<open>K\<close> are exactly those of the
  list of user-supplied entries: neither provider contributes an entry for \<open>K\<close>.
\<close>

theorem C1_custom_entry_wins:
  assumes "detectCollectibles den (Some getState) a = Inr finalArr"
    and "getCustomNfts den a (getState a) = Inr (customNftArr, customCollectiblesMap)"
    and "obj_get customCollectiblesMap K = Some c"
  shows "c \<in> set finalArr
       \<and> index_key c = K
       \<and> filter (\<lambda>e. index_key e = K) finalArr = filter (\<lambda>e. index_key e = K) customNftArr"
proof -
  from getCustomNfts_result(1) [OF assms(2)]
  have m: "customCollectiblesMap = collectibles_map customNftArr" .
  from assms(3) have "(K, c) \<in> set (collectibles_map customNftArr)"
    unfolding m by (rule obj_get_Some_entry)
  then have c: "c \<in> set customNftArr" "index_key c = K"
    by (simp_all add: collectibles_map_entries)
  from assms(1,2) obtain rest where
    f: "finalArr = customNftArr @ rest" and
    r: "\<forall>e \<in> set rest. obj_get customCollectiblesMap (index_key e) = None"
    by (rule detectCollectibles_rest)
  have "filter (\<lambda>e. index_key e = K) rest = []"
    using r assms(3) by (auto simp: filter_empty_conv)
  with c f show ?thesis by simp
qed

theorem C1_custom_entry_wins_witness:
  "case detectCollectibles ex_den ex_customs ''0xUser'' of
     Inl e \<Rightarrow> False
   | Inr finalArr \<Rightarrow>
       map index_key finalArr = [''0xaa_1'', ''0xbb_7'']
       \<and> filter (\<lambda>e. index_key e = ''0xbb_7'') finalArr
           = [custom_collectible ex_custom_land (Num 1) (Str ''My plot'') (Str ''mine.png'') (Str ''Mine'')]"
proof -
  let ?owned = "custom_collectible ex_custom_owned (Num 1) (Str ''A kitty'') (Str ''kitty.png'') (Str ''Kitty'')"
  let ?land = "custom_collectible ex_custom_land (Num 1) (Str ''My plot'') (Str ''mine.png'') (Str ''Mine'')"
  let ?gs = "\<lambda>a :: string. Some [ex_custom_owned, ex_custom_zero, ex_custom_land]"
  have run: "detectCollectibles ex_den (Some ?gs) ''0xUser'' = Inr [?owned, ?land]"
    by code_simp
  have cust: "getCustomNfts ex_den ''0xUser'' (?gs ''0xUser'')
                = Inr ([?owned, ?land], [(''0xaa_1'', ?owned), (''0xbb_7'', ?land)])"
    by code_simp
  have get: "obj_get [(''0xaa_1'', ?owned), (''0xbb_7'', ?land)] ''0xbb_7'' = Some ?land"
    by (simp add: obj_get_def)
  have keys: "map index_key [?owned, ?land] = [''0xaa_1'', ''0xbb_7'']"
    by code_simp
  have "filter (\<lambda>e. index_key e = ''0xbb_7'') [?owned, ?land] = [?land]"
    by code_simp
  with C1_custom_entry_wins [OF run cust get] keys show ?thesis
    by (simp add: ex_customs_def run)
qed

lemma opensea_collectible_properties:
  assumes "opensea_collectible den asset = Some oc"
  shows "contractFallbackLogo (options oc) = None \<and> tokenBalance (options oc) = None
       \<and> contractName (options oc) \<noteq> None \<and> contractSymbol (options oc) \<noteq> None
       \<and> contractImage (options oc) \<noteq> None \<and> opt_standard (options oc) \<noteq> None
       \<and> contractDescription (options oc) \<noteq> None \<and> opt_description (options oc) \<noteq> None
       \<and> opt_image (options oc) \<noteq> None \<and> opt_name (options oc) \<noteq> None
       \<and> opt_contractAddress (options oc) \<noteq> None \<and> contractSupply (options oc) \<noteq> None"
  using assms
  by (auto simp: opensea_collectible_def Let_def split: option.splits if_splits)

lemma deepmerge_onto_opensea:
  assumes "opensea_collectible den asset = Some oc"
  shows "deepmerge v oc
           = oc\<lparr>options := (options oc)\<lparr> contractFallbackLogo := contractFallbackLogo (options v),
                                          tokenBalance := tokenBalance (options v) \<rparr>\<rparr>"
  using opensea_collectible_properties [OF assms]
  by (cases oc; cases "options oc") (auto simp: deepmerge_def deepmerge_options_def merge_prop_def)

text \<open>
  C2, as the specification states it, on the example cycle on mainnet with no
  user-supplied entries: Covalent reports the keys \<open>0xbb_7\<close> and \<open>0xbb_8\<close>, OpenSea
  reports \<open>0xbb_7\<close> with an empty description. The array handed to the store is the
  single entry \<open>ex_merged\<close>: the key \<open>0xbb_8\<close>, present only in Covalent, is missing,
  and the description of the merged entry is OpenSea's \<open>null\<close>, not Covalent's text.
\<close>

theorem C2_provider_precedence_counterexample:
  "obj_keys (snd (detectCollectiblesFromCovalent ex_den ''0xUser'' ''mainnet'')) = [''0xbb_7'', ''0xbb_8'']
   \<and> obj_keys (snd (detectCollectiblesFromOpensea ex_den ''0xUser'')) = [''0xbb_7'']
   \<and> map (opt_description \<circ> options) (fst (detectCollectiblesFromCovalent ex_den ''0xUser'' ''mainnet''))
       = [Some (Str ''Seven''), Some Undefined]
   \<and> detectCollectibles ex_den ex_no_customs ''0xUser'' = Inr [ex_merged]
   \<and> map index_key [ex_merged] = [''0xbb_7'']
   \<and> opt_description (options ex_merged) = Some Null"
  by code_simp

text \<open>
  C2, amended: on a network where both providers run, let the OpenSea adapter have kept
  at least one item (an item whose standard is supported: the code looks at the keys of
  the adapter's map). Then the array handed to the store is the user-supplied entries
  followed by one entry for every key of the OpenSea map that is not a key of the
  user-supplied entries, in the order of the map: OpenSea's entry \<open>oc\<close> itself when
  Covalent has no entry under the key, and otherwise the deep merge of Covalent's entry
  \<open>v\<close> with \<open>oc\<close>. That merge is \<open>oc\<close> with two properties taken from \<open>v\<close>,
  \<open>contractFallbackLogo\<close> and \<open>tokenBalance\<close>, which an OpenSea entry never has; every
  property an OpenSea entry has keeps OpenSea's value, empty or not. Keys reported by
  Covalent alone are not included: every entry of the array is a user-supplied one or
  has a key of the OpenSea map, and no entry has a key that is neither a key of the
  user-supplied entries nor of the OpenSea map.
\<close>

theorem C2_opensea_entries_take_precedence:
  assumes "isMainnet den \<or> isMatic den"
    and "detectCollectibles den (Some getState) a = Inr finalArr"
    and "getCustomNfts den a (getState a) = Inr (customNftArr, customCollectiblesMap)"
    and "obj_keys (snd (detectCollectiblesFromOpensea den a)) \<noteq> []"
  shows "finalArr
           = customNftArr
             @ map (\<lambda>(x, oc).
                      case obj_get (snd (detectCollectiblesFromCovalent den a (networkName den))) x of
                        Some v \<Rightarrow> deepmerge v oc
                      | None \<Rightarrow> oc)
                 (filter (\<lambda>(x, oc). obj_get customCollectiblesMap x = None)
                    (snd (detectCollectiblesFromOpensea den a)))
       \<and> (\<forall>K oc. obj_get (snd (detectCollectiblesFromOpensea den a)) K = Some oc
                   \<and> obj_get customCollectiblesMap K = None
             \<longrightarrow> (case obj_get (snd (detectCollectiblesFromCovalent den a (networkName den))) K of
                    None \<Rightarrow> oc \<in> set finalArr
                  | Some v \<Rightarrow>
                      deepmerge v oc \<in> set finalArr
                      \<and> deepmerge v oc
                          = oc\<lparr>options :=
                                 (options oc)\<lparr> contractFallbackLogo := contractFallbackLogo (options v),
                                               tokenBalance := tokenBalance (options v) \<rparr>\<rparr>))
       \<and> (\<forall>e \<in> set finalArr.
             e \<in> set customNftArr
             \<or> index_key e \<in> set (obj_keys (snd (detectCollectiblesFromOpensea den a))))
       \<and> (\<forall>K. K \<notin> set (obj_keys (snd (detectCollectiblesFromOpensea den a)))
                \<and> K \<notin> set (obj_keys customCollectiblesMap)
             \<longrightarrow> K \<notin> index_key ` set finalArr)"
proof -
  let ?V = "snd (detectCollectiblesFromCovalent den a (networkName den))"
  let ?Om = "snd (detectCollectiblesFromOpensea den a)"
  let ?f = "\<lambda>(x, oc). case obj_get ?V x of Some v \<Rightarrow> deepmerge v oc | None \<Rightarrow> oc"
  let ?kept = "filter (\<lambda>(x, oc). obj_get customCollectiblesMap x = None) ?Om"
  have final: "finalArr = customNftArr @ map ?f ?kept"
    using detectCollectibles_result [OF assms(2,3)] assms(1,4) by simp
  have first: "case obj_get ?V K of
            None \<Rightarrow> oc \<in> set finalArr
          | Some v \<Rightarrow>
              deepmerge v oc \<in> set finalArr
              \<and> deepmerge v oc
                  = oc\<lparr>options := (options oc)\<lparr> contractFallbackLogo := contractFallbackLogo (options v),
                                                 tokenBalance := tokenBalance (options v) \<rparr>\<rparr>"
    if os: "obj_get ?Om K = Some oc" and nc: "obj_get customCollectiblesMap K = None" for K oc
  proof -
    have entry: "(K, oc) \<in> set ?Om" by (rule obj_get_Some_entry [OF os])
    have "(K, oc) \<in> set ?kept" using entry nc by simp
    then have "?f (K, oc) \<in> ?f ` set ?kept" by (rule imageI)
    then have mem: "(case obj_get ?V K of Some v \<Rightarrow> deepmerge v oc | None \<Rightarrow> oc) \<in> set finalArr"
      unfolding final by simp
    from opensea_map_entries [OF entry] obtain asset where
      asset: "opensea_collectible den asset = Some oc" by blast
    show ?thesis
      using mem deepmerge_onto_opensea [OF asset] by (simp split: option.splits)
  qed
  have second: "e \<in> set customNftArr \<or> index_key e \<in> set (obj_keys ?Om)" if "e \<in> set finalArr" for e
  proof (cases "e \<in> set customNftArr")
    case True
    then show ?thesis by simp
  next
    case False
    with that obtain x oc' where p: "(x, oc') \<in> set ?Om" and e: "e = ?f (x, oc')"
      unfolding final by auto
    from opensea_map_entries [OF p] have "index_key oc' = x" by simp
    then have "index_key e = x"
      unfolding e by (simp add: index_key_deepmerge split: option.splits)
    moreover have "x \<in> set (obj_keys ?Om)" using p by (force simp: obj_keys_def)
    ultimately show ?thesis by simp
  qed
  have ckeys: "set (obj_keys customCollectiblesMap) = index_key ` set customNftArr"
    using getCustomNfts_result(1) [OF assms(3)] by (simp add: collectibles_map_keys)
  have third: "K \<notin> index_key ` set finalArr"
    if "K \<notin> set (obj_keys ?Om)" "K \<notin> set (obj_keys customCollectiblesMap)" for K
  proof
    assume "K \<in> index_key ` set finalArr"
    then obtain e where e: "e \<in> set finalArr" "index_key e = K" by auto
    from second [OF e(1)] e(2) that ckeys show False by auto
  qed
  from final first second third show ?thesis by blast
qed

text \<open>
  On the example, with the user's entries \<open>ex_customs\<close>: OpenSea's only key \<open>0xbb_7\<close>
  is a key of the user's entries, so the providers contribute nothing, and the key
  \<open>0xbb_8\<close>, which Covalent alone reports, is not in the array. Without user-supplied
  entries the array is the single merged entry.
\<close>

theorem C2_opensea_entries_take_precedence_witness:
  "detectCollectibles ex_den ex_no_customs ''0xUser'' = Inr [ex_merged]
   \<and> tokenBalance (options ex_merged) = Some (Str ''3'')
   \<and> (case detectCollectibles ex_den ex_customs ''0xUser'' of
         Inl e \<Rightarrow> False
       | Inr finalArr \<Rightarrow>
           map index_key finalArr = [''0xaa_1'', ''0xbb_7'']
           \<and> ''0xbb_8'' \<notin> index_key ` set finalArr)
   \<and> ''0xbb_8'' \<in> set (obj_keys (snd (detectCollectiblesFromCovalent ex_den ''0xUser'' ''mainnet'')))"
proof -
  let ?nogs = "\<lambda>a :: string. Some ([] :: custom_nft list)"
  let ?gs = "\<lambda>a :: string. Some [ex_custom_owned, ex_custom_zero, ex_custom_land]"
  let ?owned = "custom_collectible ex_custom_owned (Num 1) (Str ''A kitty'') (Str ''kitty.png'') (Str ''Kitty'')"
  let ?land = "custom_collectible ex_custom_land (Num 1) (Str ''My plot'') (Str ''mine.png'') (Str ''Mine'')"
  let ?oc = "ex_merged\<lparr>options := (options ex_merged)\<lparr> contractFallbackLogo := None,
                                                        tokenBalance := None \<rparr>\<rparr>"
  have net: "isMainnet ex_den \<or> isMatic ex_den" by code_simp
  have keys: "obj_keys (snd (detectCollectiblesFromOpensea ex_den ''0xUser'')) = [''0xbb_7'']"
    by code_simp
  have nonempty: "obj_keys (snd (detectCollectiblesFromOpensea ex_den ''0xUser'')) \<noteq> []"
    unfolding keys by simp
  have run_none: "detectCollectibles ex_den (Some ?nogs) ''0xUser'' = Inr [ex_merged]" by code_simp
  have cust_none: "getCustomNfts ex_den ''0xUser'' (?nogs ''0xUser'') = Inr ([], [])" by code_simp
  have bal: "tokenBalance (options ex_merged) = Some (Str ''3'')" by (simp add: ex_merged_def)
  have run: "detectCollectibles ex_den (Some ?gs) ''0xUser'' = Inr [?owned, ?land]"
    by code_simp
  have cust: "getCustomNfts ex_den ''0xUser'' (?gs ''0xUser'')
                = Inr ([?owned, ?land], [(''0xaa_1'', ?owned), (''0xbb_7'', ?land)])"
    by code_simp
  have k: "map index_key [?owned, ?land] = [''0xaa_1'', ''0xbb_7'']" by code_simp
  have cov: "''0xbb_8'' \<in> set (obj_keys (snd (detectCollectiblesFromCovalent ex_den ''0xUser'' ''mainnet'')))"
    by code_simp
  from C2_opensea_entries_take_precedence [OF net run_none cust_none nonempty]
  have shape: "[ex_merged] = [] @ map (\<lambda>(x, oc).
                      case obj_get (snd (detectCollectiblesFromCovalent ex_den ''0xUser'' (networkName ex_den))) x of
                        Some v \<Rightarrow> deepmerge v oc
                      | None \<Rightarrow> oc)
                 (filter (\<lambda>(x, oc). obj_get ([] :: collectible_details jsobj) x = None)
                    (snd (detectCollectiblesFromOpensea ex_den ''0xUser'')))"
    by blast
  from C2_opensea_entries_take_precedence [OF net run cust nonempty]
  have "''0xbb_8'' \<notin> set (obj_keys (snd (detectCollectiblesFromOpensea ex_den ''0xUser'')))
          \<and> ''0xbb_8'' \<notin> set (obj_keys [(''0xaa_1'', ?owned), (''0xbb_7'', ?land)])
        \<longrightarrow> ''0xbb_8'' \<notin> index_key ` set [?owned, ?land]"
    by blast
  moreover have "''0xbb_8'' \<notin> set (obj_keys (snd (detectCollectiblesFromOpensea ex_den ''0xUser'')))"
    by (simp add: keys)
  moreover have "''0xbb_8'' \<notin> set (obj_keys [(''0xaa_1'', ?owned), (''0xbb_7'', ?land)])"
    by (simp add: obj_keys_def)
  ultimately have "''0xbb_8'' \<notin> index_key ` set [?owned, ?land]"
    by blast
  then show ?thesis
    using run_none bal k cov by (simp add: ex_no_customs_def ex_customs_def run del: set_simps image_insert)
qed

section \<open>Properties of the polling timer\<close>

lemma set_interval_inv:
  assumes "\<forall>h \<in> set (live_timers p). handle p = Some h"
    and "distinct (live_timers p)"
    and "\<forall>h. handle p = Some h \<longrightarrow> h < next_handle p"
  shows "(\<forall>h \<in> set (live_timers (set_interval den p n)). handle (set_interval den p n) = Some h)
       \<and> distinct (live_timers (set_interval den p n))
       \<and> (\<forall>h. handle (set_interval den p n) = Some h \<longrightarrow> h < next_handle (set_interval den p n))
       \<and> set (live_timers (set_interval den p n)) \<inter> set_option (handle p) = {}"
proof (cases "handle p")
  case None
  with assms(1) have "live_timers p = []" by (cases "live_timers p") auto
  with None show ?thesis by (simp add: set_interval_def Let_def)
next
  case (Some h)
  with assms(1) have "removeAll h (live_timers p) = []"
    by (auto simp: removeAll_filter_not_eq filter_empty_conv)
  moreover from Some assms(3) have "h < next_handle p" by simp
  ultimately show ?thesis using Some by (simp add: set_interval_def clearInterval_def Let_def)
qed

lemma apply_op_inv:
  assumes "\<forall>h \<in> set (live_timers p). handle p = Some h"
    and "distinct (live_timers p)"
    and "\<forall>h. handle p = Some h \<longrightarrow> h < next_handle p"
  shows "(\<forall>h \<in> set (live_timers (apply_op den x p)). handle (apply_op den x p) = Some h)
       \<and> distinct (live_timers (apply_op den x p))
       \<and> (\<forall>h. handle (apply_op den x p) = Some h \<longrightarrow> h < next_handle (apply_op den x p))"
proof -
  have start: "(\<forall>h \<in> set (live_timers (restartAssetDetection den q)).
                  handle (restartAssetDetection den q) = Some h)
       \<and> distinct (live_timers (restartAssetDetection den q))
       \<and> (\<forall>h. handle (restartAssetDetection den q) = Some h
               \<longrightarrow> h < next_handle (restartAssetDetection den q))"
    if "live_timers q = live_timers p" "handle q = handle p" "next_handle q = next_handle p" for q
  proof (cases "active_address q = []")
    case True
    then show ?thesis using assms that by (simp add: restartAssetDetection_def)
  next
    case False
    have "(\<forall>h \<in> set (live_timers (detectAssets q)). handle (detectAssets q) = Some h)"
      "distinct (live_timers (detectAssets q))"
      "\<forall>h. handle (detectAssets q) = Some h \<longrightarrow> h < next_handle (detectAssets q)"
      using assms that by (simp_all add: detectAssets_def)
    from set_interval_inv [OF this] False show ?thesis
      by (simp add: restartAssetDetection_def)
  qed
  show ?thesis
  proof (cases x)
    case (Start a)
    then show ?thesis using start [of "p\<lparr>active_address := a\<rparr>"]
      by (simp add: startAssetDetection_def)
  next
    case Stop
    then show ?thesis using assms by (simp add: stopAssetDetection_def)
  next
    case Restart
    then show ?thesis using start [of p] by simp
  next
    case (SetInterval n)
    then show ?thesis using set_interval_inv [OF assms, of den n] by simp
  qed
qed

lemma reachable_inv:
  "(\<forall>h \<in> set (live_timers (fold (apply_op den) ops (new_poller den i a))).
      handle (fold (apply_op den) ops (new_poller den i a)) = Some h)
   \<and> distinct (live_timers (fold (apply_op den) ops (new_poller den i a)))
   \<and> (\<forall>h. handle (fold (apply_op den) ops (new_poller den i a)) = Some h
          \<longrightarrow> h < next_handle (fold (apply_op den) ops (new_poller den i a)))"
proof (induction ops rule: rev_induct)
  case Nil
  show ?case by (simp add: new_poller_def set_interval_def Let_def)
next
  case (snoc x ops)
  from snoc.IH show ?case
    using apply_op_inv [of "fold (apply_op den) ops (new_poller den i a)" den x] by simp
qed

text \<open>
  C8, as the specification states it: \<open>stopAssetDetection\<close> cancels the timer, so that
  no tick fires afterwards. On the code this fails: after the controller is built,
  started for an address and stopped, the timer armed by the start is still live and
  its tick still calls \<open>detectAssets\<close>.
\<close>

theorem C8_stop_leaves_timer_live_counterexample:
  "live_timers (stopAssetDetection (startAssetDetection ex_den (new_poller ex_den 0 []) ''0xUser''))
     = [2]
   \<and> tick (stopAssetDetection (startAssetDetection ex_den (new_poller ex_den 0 []) ''0xUser''))
       \<noteq> None"
  by (simp add: stopAssetDetection_def startAssetDetection_def restartAssetDetection_def
      new_poller_def set_interval_def clearInterval_def detectAssets_def tick_def
      DEFAULT_INTERVAL_def ex_den_def Let_def)

text \<open>
  C8, amended: in every state the controller reaches from its construction by calls of
  start, stop, restart and the interval setter, at most one timer is live; the setter
  leaves no timer live that was armed before the call; and \<open>stopAssetDetection\<close>
  clears the active address while the timer and its handle stay as they were.
\<close>

theorem C8_one_timer_and_stop_clears_address_only:
  "length (live_timers (fold (apply_op den) ops (new_poller den i a))) \<le> 1
   \<and> set (live_timers (set_interval den (fold (apply_op den) ops (new_poller den i a)) n))
        \<inter> set (live_timers (fold (apply_op den) ops (new_poller den i a))) = {}
   \<and> active_address (stopAssetDetection (fold (apply_op den) ops (new_poller den i a))) = []
   \<and> live_timers (stopAssetDetection (fold (apply_op den) ops (new_poller den i a)))
       = live_timers (fold (apply_op den) ops (new_poller den i a))
   \<and> handle (stopAssetDetection (fold (apply_op den) ops (new_poller den i a)))
       = handle (fold (apply_op den) ops (new_poller den i a))"
proof -
  let ?p = "fold (apply_op den) ops (new_poller den i a)"
  have inv: "\<forall>h \<in> set (live_timers ?p). handle ?p = Some h" "distinct (live_timers ?p)"
    "\<forall>h. handle ?p = Some h \<longrightarrow> h < next_handle ?p"
    using reachable_inv [of den ops i a] by simp_all
  have one: "length (live_timers ?p) \<le> 1"
  proof (cases "live_timers ?p")
    case Nil
    then show ?thesis by simp
  next
    case (Cons h hs)
    with inv(1) have "\<forall>k \<in> set hs. k = h" by auto
    with inv(2) Cons have "hs = []" by (cases hs) auto
    with Cons show ?thesis by simp
  qed
  have "set (live_timers (set_interval den ?p n)) \<inter> set_option (handle ?p) = {}"
    using set_interval_inv [OF inv] by simp
  moreover have "set (live_timers ?p) \<subseteq> set_option (handle ?p)"
    using inv(1) by auto
  ultimately have cancel: "set (live_timers (set_interval den ?p n)) \<inter> set (live_timers ?p) = {}"
    by blast
  from one cancel show ?thesis by (simp add: stopAssetDetection_def)
qed

theorem C8_one_timer_and_stop_clears_address_only_witness:
  "live_timers (fold (apply_op ex_den) [Start ''0xUser'', SetInterval 5, Stop] (new_poller ex_den 0 []))
     = [3]
   \<and> length (live_timers (fold (apply_op ex_den) [Start ''0xUser'', SetInterval 5, Stop]
                (new_poller ex_den 0 []))) \<le> 1
   \<and> active_address (stopAssetDetection (fold (apply_op ex_den) [Start ''0xUser'', SetInterval 5, Stop]
                (new_poller ex_den 0 []))) = []"
proof -
  have "live_timers (fold (apply_op ex_den) [Start ''0xUser'', SetInterval 5, Stop]
          (new_poller ex_den 0 [])) = [3]"
    by (simp add: stopAssetDetection_def startAssetDetection_def restartAssetDetection_def
        new_poller_def set_interval_def clearInterval_def detectAssets_def
        DEFAULT_INTERVAL_def ex_den_def Let_def)
  with C8_one_timer_and_stop_clears_address_only
      [of ex_den "[Start ''0xUser'', SetInterval 5, Stop]" 0 "[]" 5]
  show ?thesis by simp
qed

end
